theory Spec2Isabelle
  imports Main "HOL-Library.Word"
begin

section \<open>Values, errors and results\<close>

text \<open>
  The module \<^verbatim>\<open>packages/lib/services/e2ee/ppk.ts\<close> manages a public/private key pair
  (PPK): it generates and loads key pairs, adapts the RSA library to the encryption
  service's custom handler interface, and re-encrypts master keys between the password
  scheme and the public-key scheme. Every function of the module is a short composition
  of calls to its collaborators (the \<^verbatim>\<open>node-rsa\<close> library, the \<^verbatim>\<open>EncryptionService\<close>,
  \<^verbatim>\<open>JSON\<close>, \<^verbatim>\<open>Buffer\<close>, \<^verbatim>\<open>uuid\<close>, the sync-info utilities). The collaborators whose code
  is not part of the module are parameters of the model (the records \<open>platform\<close> and
  \<open>EncryptionService\<close> below); the module's own functions are translated line by line.
  Only \<^verbatim>\<open>ppkGenerateMasterKey\<close> is left out: it hands a handler to the service's
  \<^verbatim>\<open>generateMasterKey\<close> and nothing is stated about it here.

  A JavaScript string is a \<open>string\<close>; a \<^verbatim>\<open>Buffer\<close> is a list of bytes.
\<close>

type_synonym byte = "8 word"

text \<open>
  The values \<^verbatim>\<open>JSON.parse\<close> can return, with \<open>JUndefined\<close> for the result of reading a
  property that does not exist. An object is the list of its own properties, in order.
  The module never looks inside a number, so its payload is only an integer.
\<close>

datatype jsval =
    JUndefined
  | JNull
  | JBool bool
  | JNum int
  | JStr string
  | JArr "jsval list"
  | JObj "(string \<times> jsval) list"

text \<open>
  What a call can throw (a rejected promise is the same thing for an \<^verbatim>\<open>await\<close>ing caller):
  \<^item> \<open>Error msg\<close>: \<^verbatim>\<open>new Error(msg)\<close> thrown by the module itself with a fixed message;
  \<^item> \<open>NeedsPrivateKey v i\<close>: the module's
    \<^verbatim>\<open>new Error(`Needs private key ${parsed.ppkId} to decrypt, but using ${context.ppkId}`)\<close>,
    with \<open>v\<close> the value of \<^verbatim>\<open>parsed.ppkId\<close> and \<open>i\<close> the value of \<^verbatim>\<open>context.ppkId\<close>;
  \<^item> \<open>TypeError\<close>: raised by the JavaScript runtime (reading a property of \<^verbatim>\<open>null\<close>,
    \<^verbatim>\<open>Buffer.from\<close> on a value that is not a string);
  \<^item> \<open>Thrown msg\<close>: anything thrown by a collaborator (the RSA library, the encryption
    service, \<^verbatim>\<open>JSON.parse\<close>, the settings).
  A collaborator's function returns \<open>thrown + 'a\<close>: it cannot throw the module's own errors.
\<close>

type_synonym thrown = string

datatype error =
    Error string
  | NeedsPrivateKey jsval string
  | TypeError
  | Thrown string

text \<open>
  \<open>and_then r f\<close> is the sequencing of the source: the statement after a call (or after
  an \<^verbatim>\<open>await\<close>) runs only when the call returned; an exception skips the rest.
\<close>

definition and_then :: "error + 'a \<Rightarrow> ('a \<Rightarrow> error + 'b) \<Rightarrow> error + 'b" where
  "and_then r f = (case r of Inl e \<Rightarrow> Inl e | Inr x \<Rightarrow> f x)"

text \<open>The result of calling a collaborator, as the module sees it.\<close>

definition call :: "thrown + 'a \<Rightarrow> error + 'a" where
  "call r = (case r of Inl msg \<Rightarrow> Inl (Thrown msg) | Inr x \<Rightarrow> Inr x)"

text \<open>
  Reading the property \<open>k\<close> of a parsed value, for a name \<open>k\<close> that no built-in prototype
  defines (the module reads \<^verbatim>\<open>ppkId\<close> and \<^verbatim>\<open>ciphertext\<close> only): \<^verbatim>\<open>null\<close> and
  \<^verbatim>\<open>undefined\<close> have no properties and the read throws; an object yields its own property
  or \<^verbatim>\<open>undefined\<close>; every other value yields \<^verbatim>\<open>undefined\<close>.
\<close>

fun js_get :: "jsval \<Rightarrow> string \<Rightarrow> error + jsval" where
  "js_get JUndefined k = Inl TypeError"
| "js_get JNull k = Inl TypeError"
| "js_get (JObj kvs) k = Inr (case map_of kvs k of None \<Rightarrow> JUndefined | Some v \<Rightarrow> v)"
| "js_get v k = Inr JUndefined"

subsection \<open>Hexadecimal encoding of buffers\<close>

text \<open>
  \<^verbatim>\<open>buffer.toString('hex')\<close> writes two lower-case digits for each byte.
  \<^verbatim>\<open>Buffer.from(s, 'hex')\<close> reads pairs of digits of either case and stops at the first
  pair that is not hexadecimal (a trailing single character is dropped).
\<close>

definition hex_digit :: "nat \<Rightarrow> char" where
  "hex_digit n = (if n < 10 then char_of (48 + n) else char_of (87 + n))"

definition hex_value :: "char \<Rightarrow> nat option" where
  "hex_value c =
     (let n = (of_char c :: nat)
      in if 48 \<le> n \<and> n \<le> 57 then Some (n - 48)
         else if 97 \<le> n \<and> n \<le> 102 then Some (n - 87)
         else if 65 \<le> n \<and> n \<le> 70 then Some (n - 55)
         else None)"

fun hex_encode :: "byte list \<Rightarrow> string" where
  "hex_encode [] = []"
| "hex_encode (b # bs) = hex_digit (unat b div 16) # hex_digit (unat b mod 16) # hex_encode bs"

fun hex_decode :: "string \<Rightarrow> byte list" where
  "hex_decode (a # b # rest) =
     (case (hex_value a, hex_value b) of
        (Some x, Some y) \<Rightarrow> word_of_nat (16 * x + y) # hex_decode rest
      | _ \<Rightarrow> [])"
| "hex_decode _ = []"

definition is_hex_string :: "string \<Rightarrow> bool" where
  "is_hex_string s = (even (length s) \<and> list_all (\<lambda>c. hex_value c \<noteq> None) s)"

section \<open>Data model of the module\<close>

text \<open>
  \<^verbatim>\<open>EncryptionMethod\<close> is an enumeration declared in \<^verbatim>\<open>EncryptionService.ts\<close>; the module
  names two of its members, \<^verbatim>\<open>SJCL4\<close> and \<^verbatim>\<open>Custom\<close>. \<open>OtherMethod n\<close> stands for the
  members the module does not name.
\<close>

datatype EncryptionMethod = SJCL4 | Custom | OtherMethod nat

record PrivateKey =
  encryptionMethod :: EncryptionMethod
  ciphertext :: string

type_synonym PublicKey = string

text \<open>The field \<^verbatim>\<open>id\<close> of the source is \<open>key_id\<close> here (\<open>id\<close> is the identity function of HOL).\<close>

record PublicPrivateKeyPair =
  key_id :: string
  publicKey :: PublicKey
  privateKey :: PrivateKey
  createdTime :: int

text \<open>
  A \<^verbatim>\<open>MasterKeyEntity\<close> is an object whose schema belongs to the encryption service. The
  module copies it with the object spread \<^verbatim>\<open>{ ...masterKey, ...newContent }\<close>, which works
  on any set of properties, so an entity is a map from property names to values, and the
  spread of two objects is \<open>masterKey ++ newContent\<close>.
\<close>

datatype field_value =
    FString string
  | FMethod EncryptionMethod
  | FNumber int
  | FBool bool
  | FNull

type_synonym MasterKeyEntity = "string \<rightharpoonup> field_value"

text \<open>
  \<^verbatim>\<open>SyncInfo\<close>: the module reads and writes its property \<^verbatim>\<open>ppk\<close> (absent when no key
  pair was generated yet) and hands the whole object to \<^verbatim>\<open>getActiveMasterKey\<close> and
  \<^verbatim>\<open>saveLocalSyncInfo\<close>. The other two fields stand for the master keys that the object
  holds; the module never reads them itself.
\<close>

record SyncInfo =
  ppk :: "PublicPrivateKeyPair option"
  activeMasterKeyId :: string
  masterKeys :: "MasterKeyEntity list"

record NodeRSA_Options =
  encryptionScheme :: string

section \<open>Collaborators\<close>

text \<open>
  The encryption service's password-based primitives, \<^verbatim>\<open>encrypt(method, password, plainText)\<close>
  and \<^verbatim>\<open>decrypt(method, password, cipherText)\<close>, and the method it uses for master keys
  when the caller passes \<^verbatim>\<open>null\<close>.
\<close>

record EncryptionService =
  service_encrypt :: "EncryptionMethod \<Rightarrow> string \<Rightarrow> string \<Rightarrow> thrown + string"
  service_decrypt :: "EncryptionMethod \<Rightarrow> string \<Rightarrow> string \<Rightarrow> thrown + string"
  defaultMasterKeyEncryptionMethod :: EncryptionMethod

text \<open>
  Everything else the module imports. \<open>'h\<close> is the state of a \<^verbatim>\<open>NodeRSA\<close> object; a method
  that changes the object returns its new state.
  \<^item> \<open>NodeRSA_new\<close>: \<^verbatim>\<open>new NodeRSA()\<close>; \<open>NodeRSA_setOptions\<close>, \<open>NodeRSA_generateKeyPair keys bits exponent\<close>,
    \<open>NodeRSA_isPrivate\<close>, \<open>NodeRSA_isPublic\<close>, \<open>NodeRSA_exportKey keys format\<close>,
    \<open>NodeRSA_importKey keys data format\<close>: the methods of the same names;
  \<^item> \<open>NodeRSA_encrypt keys data\<close>: the buffer that \<^verbatim>\<open>keys.encrypt(data, ...)\<close> computes for the
    string \<open>data\<close>, before the output encoding is applied;
  \<^item> \<open>NodeRSA_decrypt keys buffer\<close>: \<^verbatim>\<open>keys.decrypt(buffer, 'utf8')\<close>;
  \<^item> \<open>JSON_stringify\<close>, \<open>JSON_parse\<close>: the functions of the same names;
  \<^item> \<open>Buffer_from_object\<close>: \<^verbatim>\<open>Buffer.from(v, 'hex')\<close> for an array or an object \<open>v\<close>;
  \<^item> \<open>uuid_createNano\<close>, \<open>Date_now\<close>: the values \<^verbatim>\<open>uuid.createNano()\<close> and \<^verbatim>\<open>Date.now()\<close>
    return;
  \<^item> \<open>getActiveMasterKey\<close>, \<open>getMasterPassword throwIfNotSet\<close>: the functions of the same names.
\<close>

record 'h platform =
  NodeRSA_new :: "'h"
  NodeRSA_setOptions :: "'h \<Rightarrow> NodeRSA_Options \<Rightarrow> 'h"
  NodeRSA_generateKeyPair :: "'h \<Rightarrow> nat \<Rightarrow> nat \<Rightarrow> 'h"
  NodeRSA_isPrivate :: "'h \<Rightarrow> bool"
  NodeRSA_isPublic :: "'h \<Rightarrow> bool"
  NodeRSA_exportKey :: "'h \<Rightarrow> string \<Rightarrow> thrown + string"
  NodeRSA_importKey :: "'h \<Rightarrow> string \<Rightarrow> string \<Rightarrow> thrown + 'h"
  NodeRSA_encrypt :: "'h \<Rightarrow> string \<Rightarrow> thrown + byte list"
  NodeRSA_decrypt :: "'h \<Rightarrow> byte list \<Rightarrow> thrown + string"
  JSON_stringify :: "jsval \<Rightarrow> string"
  JSON_parse :: "string \<Rightarrow> thrown + jsval"
  Buffer_from_object :: "jsval \<Rightarrow> thrown + byte list"
  uuid_createNano :: string
  Date_now :: int
  getActiveMasterKey :: "SyncInfo \<Rightarrow> MasterKeyEntity option"
  getMasterPassword :: "bool \<Rightarrow> thrown + string"

text \<open>
  \<^verbatim>\<open>Buffer.from(v, 'hex')\<close>: a string is decoded; \<^verbatim>\<open>undefined\<close>, \<^verbatim>\<open>null\<close>, a number or a
  boolean is a \<^verbatim>\<open>TypeError\<close>; arrays and objects are left to the platform.
\<close>

fun Buffer_from_hex :: "'h platform \<Rightarrow> jsval \<Rightarrow> error + byte list" where
  "Buffer_from_hex P (JStr s) = Inr (hex_decode s)"
| "Buffer_from_hex P (JArr vs) = call (Buffer_from_object P (JArr vs))"
| "Buffer_from_hex P (JObj kvs) = call (Buffer_from_object P (JObj kvs))"
| "Buffer_from_hex P v = Inl TypeError"

section \<open>Key pair generation and loading\<close>

definition encryptPrivateKey :: "EncryptionService \<Rightarrow> string \<Rightarrow> string \<Rightarrow> error + PrivateKey" where
  "encryptPrivateKey encryptionService password plainText =
     and_then (call (service_encrypt encryptionService SJCL4 password plainText))
       (\<lambda>c. Inr \<lparr>encryptionMethod = SJCL4, ciphertext = c\<rparr>)"

definition decryptPrivateKey :: "EncryptionService \<Rightarrow> PrivateKey \<Rightarrow> string \<Rightarrow> error + string" where
  "decryptPrivateKey encryptionService encryptedKey password =
     call (service_decrypt encryptionService (encryptionMethod encryptedKey) password (ciphertext encryptedKey))"

definition nodeRSAEncryptionScheme :: string where
  "nodeRSAEncryptionScheme = ''pkcs1_oaep''"

definition nodeRSAOptions :: NodeRSA_Options where
  "nodeRSAOptions = \<lparr>encryptionScheme = nodeRSAEncryptionScheme\<rparr>"

text \<open>
  Every function that needs a \<^verbatim>\<open>NodeRSA\<close> object starts with the same two statements,
  \<^verbatim>\<open>const keys = new NodeRSA(); keys.setOptions(nodeRSAOptions());\<close>. \<open>new_keys\<close> names
  the object they build, and \<open>generated_keys\<close> the object after
  \<^verbatim>\<open>keys.generateKeyPair(2048, 65537)\<close>; the theorems use the two names.
\<close>

definition new_keys :: "'h platform \<Rightarrow> 'h" where
  "new_keys P = NodeRSA_setOptions P (NodeRSA_new P) nodeRSAOptions"

definition generated_keys :: "'h platform \<Rightarrow> 'h" where
  "generated_keys P = NodeRSA_generateKeyPair P (new_keys P) 2048 65537"

text \<open>
  The properties of the returned object are evaluated in the order they are written:
  the id, the private key (export, then encryption), the public key, the time.
\<close>

definition generateKeyPair :: "'h platform \<Rightarrow> EncryptionService \<Rightarrow> string \<Rightarrow> error + PublicPrivateKeyPair" where
  "generateKeyPair P encryptionService password =
     (let keys = NodeRSA_generateKeyPair P (NodeRSA_setOptions P (NodeRSA_new P) nodeRSAOptions) 2048 65537
      in if \<not> NodeRSA_isPrivate P keys then Inl (Error ''No private key was generated'')
         else if \<not> NodeRSA_isPublic P keys then Inl (Error ''No public key was generated'')
         else
           and_then (call (NodeRSA_exportKey P keys ''pkcs1-private-pem'')) (\<lambda>privatePem.
           and_then (encryptPrivateKey encryptionService password privatePem) (\<lambda>encrypted.
           and_then (call (NodeRSA_exportKey P keys ''pkcs1-public-pem'')) (\<lambda>publicPem.
           Inr \<lparr>key_id = uuid_createNano P,
                publicKey = publicPem,
                privateKey = encrypted,
                createdTime = Date_now P\<rparr>))))"

definition loadPpk :: "'h platform \<Rightarrow> EncryptionService \<Rightarrow> PublicPrivateKeyPair \<Rightarrow> string \<Rightarrow> error + 'h" where
  "loadPpk P service ppk' password =
     (let keys = NodeRSA_setOptions P (NodeRSA_new P) nodeRSAOptions
      in and_then (call (NodeRSA_importKey P keys (publicKey ppk') ''pkcs1-public-pem'')) (\<lambda>keys.
         and_then (decryptPrivateKey service (privateKey ppk') password) (\<lambda>privatePem.
         call (NodeRSA_importKey P keys privatePem ''pkcs1-private-pem''))))"

definition loadPublicKey :: "'h platform \<Rightarrow> PublicKey \<Rightarrow> error + 'h" where
  "loadPublicKey P publicKey' =
     (let keys = NodeRSA_setOptions P (NodeRSA_new P) nodeRSAOptions
      in call (NodeRSA_importKey P keys publicKey' ''pkcs1-public-pem''))"

text \<open>
  \<^verbatim>\<open>ppkPasswordIsValid\<close>: the argument \<^verbatim>\<open>ppk\<close> is \<open>None\<close> when the caller passes
  \<^verbatim>\<open>undefined\<close> or \<^verbatim>\<open>null\<close>. The \<^verbatim>\<open>try\<close> block catches whatever \<^verbatim>\<open>loadPpk\<close> throws.
\<close>

definition ppkPasswordIsValid :: "'h platform \<Rightarrow> EncryptionService \<Rightarrow> PublicPrivateKeyPair option \<Rightarrow> string \<Rightarrow> error + bool" where
  "ppkPasswordIsValid P service ppk' password =
     (case ppk' of
        None \<Rightarrow> Inl (Error ''PPK is undefined'')
      | Some k \<Rightarrow> (case loadPpk P service k password of Inl e \<Rightarrow> Inr False | Inr keys \<Rightarrow> Inr True))"

section \<open>The custom encryption handler\<close>

record 'h Context =
  nodeRSA :: "'h"
  ppkId :: string

text \<open>The property \<^verbatim>\<open>context\<close> of a handler is \<open>handler_context\<close> here.\<close>

record 'h EncryptionCustomHandler =
  handler_context :: "'h Context"
  encrypt :: "'h Context \<Rightarrow> string \<Rightarrow> string \<Rightarrow> error + string"
  decrypt :: "'h Context \<Rightarrow> string \<Rightarrow> string \<Rightarrow> error + string"

text \<open>
  The object that \<^verbatim>\<open>encrypt\<close> serialises. The output encoding \<^verbatim>\<open>'hex'\<close> of
  \<^verbatim>\<open>context.nodeRSA.encrypt(hexaBytes, 'hex')\<close> is \<open>hex_encode\<close> of the encrypted buffer.
\<close>

definition envelope :: "string \<Rightarrow> byte list \<Rightarrow> jsval" where
  "envelope i buffer =
     JObj [(''ppkId'', JStr i),
           (''scheme'', JStr nodeRSAEncryptionScheme),
           (''ciphertext'', JStr (hex_encode buffer))]"

definition ppkEncryptionHandler :: "'h platform \<Rightarrow> string \<Rightarrow> 'h \<Rightarrow> 'h EncryptionCustomHandler" where
  "ppkEncryptionHandler P ppkId' nodeRSA' =
     \<lparr>handler_context = \<lparr>nodeRSA = nodeRSA', ppkId = ppkId'\<rparr>,
      encrypt = (\<lambda>context' hexaBytes password'.
        and_then (call (NodeRSA_encrypt P (nodeRSA context') hexaBytes)) (\<lambda>buffer.
        Inr (JSON_stringify P (envelope (ppkId context') buffer)))),
      decrypt = (\<lambda>context' ciphertext' password'.
        and_then (call (JSON_parse P ciphertext')) (\<lambda>parsed.
        and_then (js_get parsed ''ppkId'') (\<lambda>parsed_ppkId.
        if parsed_ppkId \<noteq> JStr (ppkId context')
        then Inl (NeedsPrivateKey parsed_ppkId (ppkId context'))
        else
          and_then (js_get parsed ''ciphertext'') (\<lambda>parsed_ciphertext.
          and_then (Buffer_from_hex P parsed_ciphertext) (\<lambda>buffer.
          call (NodeRSA_decrypt P (nodeRSA context') buffer))))))\<rparr>"

text \<open>Calling a handler the way the encryption service does: with the handler's own context.\<close>

definition handler_encrypt :: "'h EncryptionCustomHandler \<Rightarrow> string \<Rightarrow> string \<Rightarrow> error + string" where
  "handler_encrypt handler hexaBytes password = encrypt handler (handler_context handler) hexaBytes password"

definition handler_decrypt :: "'h EncryptionCustomHandler \<Rightarrow> string \<Rightarrow> string \<Rightarrow> error + string" where
  "handler_decrypt handler ciphertext' password = decrypt handler (handler_context handler) ciphertext' password"

section \<open>Master keys\<close>

subsection \<open>The encryption service's master key operations\<close>

text \<open>
  The options argument of the service's operations, \<^verbatim>\<open>{ encryptionHandler: handler }\<close>, is
  an optional handler: \<open>None\<close> when the caller passes no options.
\<close>

type_synonym 'h EncryptOptions = "'h EncryptionCustomHandler option"

text \<open>Modelled from the spec: \<^verbatim>\<open>EncryptionService.encryptMasterKeyContent\<close> is declared in
  \<^verbatim>\<open>EncryptionService.ts\<close>, which is not among the sources. The spec gives its signature,
  \<^verbatim>\<open>encryptMasterKeyContent(method, plaintext, password, options)\<close>, says that the options
  optionally carry a custom handler that overrides the password-based behaviour, and that
  a master key entity holds the encrypted key material and the method that protects it.
  The operation returns the newly produced encrypted-content fields: the method (the
  field \<open>encryption_method\<close>) and the content (the field \<open>content\<close>). With a handler the
  content is what the handler's \<^verbatim>\<open>encrypt\<close> returns; without one it is the service's
  password-based \<^verbatim>\<open>encrypt\<close>, under the given method or, when the caller passes
  \<^verbatim>\<open>null\<close>, under the service's default method.
\<close>

definition encryptMasterKeyContent ::
  "EncryptionService \<Rightarrow> EncryptionMethod option \<Rightarrow> string \<Rightarrow> string \<Rightarrow> 'h EncryptOptions \<Rightarrow> error + MasterKeyEntity" where
  "encryptMasterKeyContent service method hexaBytes password options =
     (case options of
        Some handler \<Rightarrow>
          and_then (handler_encrypt handler hexaBytes password) (\<lambda>c.
          Inr [''encryption_method'' \<mapsto> FMethod Custom, ''content'' \<mapsto> FString c])
      | None \<Rightarrow>
          (let m = (case method of None \<Rightarrow> defaultMasterKeyEncryptionMethod service | Some m \<Rightarrow> m)
           in and_then (call (service_encrypt service m password hexaBytes)) (\<lambda>c.
              Inr [''encryption_method'' \<mapsto> FMethod m, ''content'' \<mapsto> FString c])))"

text \<open>Modelled from the spec: \<^verbatim>\<open>EncryptionService.decryptMasterKeyContent\<close> is declared in
  \<^verbatim>\<open>EncryptionService.ts\<close>, which is not among the sources. The spec gives its signature,
  \<^verbatim>\<open>decryptMasterKeyContent(masterKey, password, options)\<close>, with the same options. With a
  handler the content is handed to the handler's \<^verbatim>\<open>decrypt\<close>; without one it is decrypted
  with the password under the method recorded in the entity. An entity without a content
  (or, in the password case, without a method) cannot be decrypted.
\<close>

definition decryptMasterKeyContent ::
  "EncryptionService \<Rightarrow> MasterKeyEntity \<Rightarrow> string \<Rightarrow> 'h EncryptOptions \<Rightarrow> error + string" where
  "decryptMasterKeyContent service masterKey password options =
     (case masterKey ''content'' of
        Some (FString c) \<Rightarrow>
          (case options of
             Some handler \<Rightarrow> handler_decrypt handler c password
           | None \<Rightarrow>
               (case masterKey ''encryption_method'' of
                  Some (FMethod m) \<Rightarrow> call (service_decrypt service m password c)
                | _ \<Rightarrow> Inl (Thrown ''master key has no encryption method'')))
      | _ \<Rightarrow> Inl (Thrown ''master key has no content''))"

text \<open>Modelled from the spec: \<^verbatim>\<open>EncryptionService.reencryptMasterKey\<close> is declared in
  \<^verbatim>\<open>EncryptionService.ts\<close>, which is not among the sources. The spec says that it decrypts
  the content with the decryption options, encrypts it again with the encryption options,
  and that every re-encryption returns a full replacement entity, the original fields
  merged with the newly produced encrypted-content fields. The module calls it with the
  master key, an empty password and the two options.
\<close>

definition reencryptMasterKey ::
  "EncryptionService \<Rightarrow> MasterKeyEntity \<Rightarrow> string \<Rightarrow> 'h EncryptOptions \<Rightarrow> 'h EncryptOptions \<Rightarrow> error + MasterKeyEntity" where
  "reencryptMasterKey service masterKey password decryptOptions encryptOptions =
     and_then (decryptMasterKeyContent service masterKey password decryptOptions) (\<lambda>plainText.
     and_then (encryptMasterKeyContent service None plainText password encryptOptions) (\<lambda>newContent.
     Inr (masterKey ++ newContent)))"

subsection \<open>Re-encryption\<close>

definition ppkDecryptMasterKeyContent ::
  "'h platform \<Rightarrow> EncryptionService \<Rightarrow> MasterKeyEntity \<Rightarrow> PublicPrivateKeyPair \<Rightarrow> string \<Rightarrow> error + string" where
  "ppkDecryptMasterKeyContent P service masterKey ppk' password =
     and_then (loadPpk P service ppk' password) (\<lambda>nodeRSA'.
     decryptMasterKeyContent service masterKey [] (Some (ppkEncryptionHandler P (key_id ppk') nodeRSA')))"

definition reencryptFromPasswordToPublicKey ::
  "'h platform \<Rightarrow> EncryptionService \<Rightarrow> MasterKeyEntity \<Rightarrow> string \<Rightarrow> PublicPrivateKeyPair \<Rightarrow> error + MasterKeyEntity" where
  "reencryptFromPasswordToPublicKey P service masterKey decryptionPassword encryptionPublicKey =
     and_then (loadPublicKey P (publicKey encryptionPublicKey)) (\<lambda>keys.
     let encryptionHandler = ppkEncryptionHandler P (key_id encryptionPublicKey) keys
     in and_then (decryptMasterKeyContent service masterKey decryptionPassword (None :: 'h EncryptOptions)) (\<lambda>plainText.
        and_then (encryptMasterKeyContent service (Some Custom) plainText [] (Some encryptionHandler)) (\<lambda>newContent.
        Inr (masterKey ++ newContent))))"

definition reencryptFromPublicKeyToPassword ::
  "'h platform \<Rightarrow> EncryptionService \<Rightarrow> MasterKeyEntity \<Rightarrow> PublicPrivateKeyPair \<Rightarrow> string \<Rightarrow> string \<Rightarrow> error + MasterKeyEntity" where
  "reencryptFromPublicKeyToPassword P service masterKey decryptionPpk decryptionPassword encryptionPassword =
     and_then (loadPpk P service decryptionPpk decryptionPassword) (\<lambda>keys.
     let decryptionHandler = ppkEncryptionHandler P (key_id decryptionPpk) keys
     in and_then (decryptMasterKeyContent service masterKey [] (Some decryptionHandler)) (\<lambda>plainText.
        and_then (encryptMasterKeyContent service None plainText encryptionPassword (None :: 'h EncryptOptions)) (\<lambda>newContent.
        Inr (masterKey ++ newContent))))"

definition ppkReencryptMasterKey ::
  "'h platform \<Rightarrow> EncryptionService \<Rightarrow> MasterKeyEntity \<Rightarrow> PublicPrivateKeyPair \<Rightarrow> string \<Rightarrow> PublicPrivateKeyPair \<Rightarrow> error + MasterKeyEntity" where
  "ppkReencryptMasterKey P service masterKey decryptionPpk decryptionPassword encryptionPublicKey =
     and_then (loadPublicKey P (publicKey encryptionPublicKey)) (\<lambda>publicKeys.
     let encryptionHandler = ppkEncryptionHandler P (key_id encryptionPublicKey) publicKeys
     in and_then (loadPpk P service decryptionPpk decryptionPassword) (\<lambda>keys.
        let decryptionHandler = ppkEncryptionHandler P (key_id decryptionPpk) keys
        in reencryptMasterKey service masterKey [] (Some decryptionHandler) (Some encryptionHandler)))"

text \<open>
  \<open>replaces r masterKey\<close>: the entity \<open>r\<close> is \<open>masterKey\<close> with new encrypted-content fields
  (the method and the content) merged over it; every other field of \<open>masterKey\<close> is in \<open>r\<close>
  unchanged.
\<close>

definition replaces :: "MasterKeyEntity \<Rightarrow> MasterKeyEntity \<Rightarrow> bool" where
  "replaces r masterKey =
     (\<exists>newContent. r = masterKey ++ newContent
        \<and> dom newContent = {''encryption_method'', ''content''}
        \<and> (\<forall>f. f \<notin> dom newContent \<longrightarrow> r f = masterKey f)
        \<and> (\<forall>f. f \<in> dom newContent \<longrightarrow> r f = newContent f))"

section \<open>Saving a generated key pair\<close>

text \<open>
  \<^verbatim>\<open>generateKeyPairAndSave\<close> and \<^verbatim>\<open>setPpkIfNotExist\<close> change the object \<^verbatim>\<open>localInfo\<close> they
  are given and the saved sync info. The state they work on is the current value of
  \<^verbatim>\<open>localInfo\<close> and the list of everything that was saved, oldest first; each function
  returns its result together with the new state.
\<close>

record sync_state =
  localInfo :: SyncInfo
  saved :: "SyncInfo list"

text \<open>Modelled from the spec: \<^verbatim>\<open>saveLocalSyncInfo\<close> is declared in
  \<^verbatim>\<open>synchronizer/syncInfoUtils.ts\<close>, which is not among the sources. The spec says that it
  instructs the persistence layer to save \<^verbatim>\<open>localInfo\<close>: the object it is given is added
  to the saved infos, as it is at that moment.
\<close>

definition saveLocalSyncInfo :: "SyncInfo \<Rightarrow> sync_state \<Rightarrow> sync_state" where
  "saveLocalSyncInfo info st = st\<lparr>saved := saved st @ [info]\<rparr>"

definition generateKeyPairAndSave ::
  "'h platform \<Rightarrow> EncryptionService \<Rightarrow> sync_state \<Rightarrow> string \<Rightarrow> (error + PublicPrivateKeyPair) \<times> sync_state" where
  "generateKeyPairAndSave P encryptionService st password =
     (case generateKeyPair P encryptionService password of
        Inl e \<Rightarrow> (Inl e, st)
      | Inr pair \<Rightarrow>
          (let st1 = st\<lparr>localInfo := (localInfo st)\<lparr>ppk := Some pair\<rparr>\<rparr>;
               st2 = saveLocalSyncInfo (localInfo st1) st1
           in (Inr pair, st2)))"

text \<open>
  \<^verbatim>\<open>getMasterPassword\<close> is called twice: with \<^verbatim>\<open>false\<close> for the test, and with its default
  argument (\<^verbatim>\<open>throwIfNotSet = true\<close>) for the password that is used. A password is falsy
  when it is the empty string.
\<close>

definition setPpkIfNotExist ::
  "'h platform \<Rightarrow> EncryptionService \<Rightarrow> sync_state \<Rightarrow> SyncInfo \<Rightarrow> (error + unit) \<times> sync_state" where
  "setPpkIfNotExist P service st remoteInfo =
     (if ppk (localInfo st) \<noteq> None \<or> ppk remoteInfo \<noteq> None then (Inr (), st)
      else case getActiveMasterKey P (localInfo st) of
        None \<Rightarrow> (Inr (), st)
      | Some masterKey \<Rightarrow>
          (case call (getMasterPassword P False) of
             Inl e \<Rightarrow> (Inl e, st)
           | Inr password \<Rightarrow>
               if password = [] then (Inr (), st)
               else (case call (getMasterPassword P True) of
                       Inl e \<Rightarrow> (Inl e, st)
                     | Inr password2 \<Rightarrow>
                         (case generateKeyPairAndSave P service st password2 of
                            (Inl e, st') \<Rightarrow> (Inl e, st')
                          | (Inr pair, st') \<Rightarrow> (Inr (), st')))))"

section \<open>A small concrete platform\<close>

text \<open>
  The theorems below hold for every platform and every encryption service. To apply
  them to concrete inputs, this section defines one platform and one service that can be
  evaluated: a key pair is a name; the public and private exports are the name behind a
  prefix; encrypting prefixes the reversed text with the name of the public key, and
  decrypting checks that prefix against the private key. Password encryption prefixes the
  text with the password. The JSON functions cover objects whose properties are strings
  without quotation marks or backslashes, which is all the handler writes.
\<close>

datatype demo_key = DemoKey (public_part: "string option") (private_part: "string option")

definition demo_exportKey :: "demo_key \<Rightarrow> string \<Rightarrow> thrown + string" where
  "demo_exportKey keys format =
     (if format = ''pkcs1-private-pem''
      then (case private_part keys of
              None \<Rightarrow> Inl ''This is not private key''
            | Some n \<Rightarrow> Inr (''PRIVATE '' @ n))
      else if format = ''pkcs1-public-pem''
      then (case public_part keys of
              None \<Rightarrow> Inl ''This is not public key''
            | Some n \<Rightarrow> Inr (''PUBLIC '' @ n))
      else Inl ''Unsupported key format'')"

definition demo_importKey :: "demo_key \<Rightarrow> string \<Rightarrow> string \<Rightarrow> thrown + demo_key" where
  "demo_importKey keys data format =
     (if format = ''pkcs1-public-pem'' \<and> take 7 data = ''PUBLIC ''
      then Inr (DemoKey (Some (drop 7 data)) (private_part keys))
      else if format = ''pkcs1-private-pem'' \<and> take 8 data = ''PRIVATE ''
      then Inr (DemoKey (Some (drop 8 data)) (Some (drop 8 data)))
      else Inl ''Unsupported key format'')"

definition demo_encrypt :: "demo_key \<Rightarrow> string \<Rightarrow> thrown + byte list" where
  "demo_encrypt keys data =
     (case public_part keys of
        None \<Rightarrow> Inl ''Error during encryption''
      | Some n \<Rightarrow> Inr (map of_char (n @ '':'' @ rev data)))"

definition demo_decrypt :: "demo_key \<Rightarrow> byte list \<Rightarrow> thrown + string" where
  "demo_decrypt keys buffer =
     (case private_part keys of
        None \<Rightarrow> Inl ''This is not private key''
      | Some n \<Rightarrow>
          (let text = map (\<lambda>b. char_of (unat b)) buffer
           in if take (length n + 1) text = n @ '':''
              then Inr (rev (drop (length n + 1) text))
              else Inl ''Error during decryption (probably incorrect key)''))"

definition quote :: "string \<Rightarrow> string" where
  "quote s = CHR 0x22 # s @ [CHR 0x22]"

fun demo_property :: "string \<times> jsval \<Rightarrow> string" where
  "demo_property (k, JStr s) = quote k @ '':'' @ quote s"
| "demo_property (k, v) = quote k @ '':null''"

fun demo_join :: "string list \<Rightarrow> string" where
  "demo_join [] = []"
| "demo_join [x] = x"
| "demo_join (x # y # ys) = x @ '','' @ demo_join (y # ys)"

fun demo_stringify :: "jsval \<Rightarrow> string" where
  "demo_stringify (JObj kvs) = ''{'' @ demo_join (map demo_property kvs) @ ''}''"
| "demo_stringify (JStr s) = quote s"
| "demo_stringify v = ''null''"

text \<open>
  Parsing splits the text at the quotation marks: the pieces of a flat object are the
  opening brace, then name, colon, value and a separator for each property.
\<close>

fun split_quotes :: "string \<Rightarrow> string list" where
  "split_quotes [] = [[]]"
| "split_quotes (c # cs) =
     (if c = CHR 0x22 then [] # split_quotes cs
      else (case split_quotes cs of
              [] \<Rightarrow> [[c]]
            | piece # pieces \<Rightarrow> (c # piece) # pieces))"

fun demo_properties :: "string list \<Rightarrow> (string \<times> jsval) list option" where
  "demo_properties (k # colon # v # sep # rest) =
     (if colon \<noteq> '':'' then None
      else if sep = ''}'' \<and> rest = [] then Some [(k, JStr v)]
      else if sep = '','' then map_option ((#) (k, JStr v)) (demo_properties rest)
      else None)"
| "demo_properties pieces = None"

definition demo_parse :: "string \<Rightarrow> thrown + jsval" where
  "demo_parse text =
     (if text = ''null'' then Inr JNull
      else if text = ''{}'' then Inr (JObj [])
      else (case split_quotes text of
              [] \<Rightarrow> Inl ''SyntaxError''
            | opening # pieces \<Rightarrow>
                if opening \<noteq> ''{'' then Inl ''SyntaxError''
                else (case demo_properties pieces of
                        None \<Rightarrow> Inl ''SyntaxError''
                      | Some kvs \<Rightarrow> Inr (JObj kvs))))"

definition demo_getActiveMasterKey :: "SyncInfo \<Rightarrow> MasterKeyEntity option" where
  "demo_getActiveMasterKey info =
     (if activeMasterKeyId info = [] then None
      else find (\<lambda>mk. mk ''id'' = Some (FString (activeMasterKeyId info))) (masterKeys info))"

definition demo_platform :: "demo_key platform" where
  "demo_platform =
     \<lparr>NodeRSA_new = DemoKey None None,
      NodeRSA_setOptions = (\<lambda>keys options. keys),
      NodeRSA_generateKeyPair = (\<lambda>keys bits exponent. DemoKey (Some ''k1'') (Some ''k1'')),
      NodeRSA_isPrivate = (\<lambda>keys. private_part keys \<noteq> None),
      NodeRSA_isPublic = (\<lambda>keys. public_part keys \<noteq> None),
      NodeRSA_exportKey = demo_exportKey,
      NodeRSA_importKey = demo_importKey,
      NodeRSA_encrypt = demo_encrypt,
      NodeRSA_decrypt = demo_decrypt,
      JSON_stringify = demo_stringify,
      JSON_parse = demo_parse,
      Buffer_from_object = (\<lambda>v. Inl ''The first argument must be of type string''),
      uuid_createNano = ''ppk1'',
      Date_now = 1635000000000,
      getActiveMasterKey = demo_getActiveMasterKey,
      getMasterPassword = (\<lambda>throwIfNotSet. Inr ''abc123'')\<rparr>"

definition demo_encrypt_password :: "EncryptionMethod \<Rightarrow> string \<Rightarrow> string \<Rightarrow> thrown + string" where
  "demo_encrypt_password method password plainText = Inr (password @ ''|'' @ plainText)"

definition demo_decrypt_password :: "EncryptionMethod \<Rightarrow> string \<Rightarrow> string \<Rightarrow> thrown + string" where
  "demo_decrypt_password method password cipherText =
     (if take (length password + 1) cipherText = password @ ''|''
      then Inr (drop (length password + 1) cipherText)
      else Inl ''Invalid password'')"

definition demo_service :: EncryptionService where
  "demo_service =
     \<lparr>service_encrypt = demo_encrypt_password,
      service_decrypt = demo_decrypt_password,
      defaultMasterKeyEncryptionMethod = SJCL4\<rparr>"

text \<open>Two key pairs as \<open>generateKeyPair\<close> returns them on this platform, with different ids.\<close>

definition demo_pair :: PublicPrivateKeyPair where
  "demo_pair =
     \<lparr>key_id = ''ppk1'',
      publicKey = ''PUBLIC k1'',
      privateKey = \<lparr>encryptionMethod = SJCL4, ciphertext = ''abc123|PRIVATE k1''\<rparr>,
      createdTime = 1635000000000\<rparr>"

definition demo_pair2 :: PublicPrivateKeyPair where
  "demo_pair2 =
     \<lparr>key_id = ''ppk2'',
      publicKey = ''PUBLIC k2'',
      privateKey = \<lparr>encryptionMethod = SJCL4, ciphertext = ''abc123|PRIVATE k2''\<rparr>,
      createdTime = 1635000000001\<rparr>"

definition demo_full_key :: demo_key where
  "demo_full_key = DemoKey (Some ''k1'') (Some ''k1'')"

definition demo_full_key2 :: demo_key where
  "demo_full_key2 = DemoKey (Some ''k2'') (Some ''k2'')"

text \<open>A master key whose content is \<open>''c0ffee''\<close> under the password \<open>''pw1''\<close>.\<close>

definition demo_masterKey :: MasterKeyEntity where
  "demo_masterKey =
     [''id'' \<mapsto> FString ''mk1'',
      ''created_time'' \<mapsto> FNumber 1634000000000,
      ''encryption_method'' \<mapsto> FMethod SJCL4,
      ''content'' \<mapsto> FString ''pw1|c0ffee'']"

definition demo_localInfo :: SyncInfo where
  "demo_localInfo = \<lparr>ppk = None, activeMasterKeyId = ''mk1'', masterKeys = [demo_masterKey]\<rparr>"

definition demo_remoteInfo :: SyncInfo where
  "demo_remoteInfo = \<lparr>ppk = None, activeMasterKeyId = [], masterKeys = []\<rparr>"



text \<open>Platforms whose RSA library generates an object without a private or without a public key.\<close>

definition demo_platform_no_private :: "demo_key platform" where
  "demo_platform_no_private =
     demo_platform\<lparr>NodeRSA_generateKeyPair := (\<lambda>keys bits exponent. DemoKey (Some ''k1'') None)\<rparr>"

definition demo_platform_no_public :: "demo_key platform" where
  "demo_platform_no_public =
     demo_platform\<lparr>NodeRSA_generateKeyPair := (\<lambda>keys bits exponent. DemoKey None (Some ''k1''))\<rparr>"

text \<open>A generator that agrees with the one of \<open>demo_platform\<close> on 2048 bits and exponent 65537.\<close>

definition demo_generator :: "demo_key \<Rightarrow> nat \<Rightarrow> nat \<Rightarrow> demo_key" where
  "demo_generator keys bits exponent =
     (if bits = 2048 \<and> exponent = 65537 then DemoKey (Some ''k1'') (Some ''k1'') else keys)"

text \<open>The local sync info before anything was saved, without and with a key pair.\<close>

definition demo_state :: sync_state where
  "demo_state = \<lparr>localInfo = demo_localInfo, saved = []\<rparr>"

definition demo_state_with_pair :: sync_state where
  "demo_state_with_pair = \<lparr>localInfo = demo_localInfo\<lparr>ppk := Some demo_pair2\<rparr>, saved = []\<rparr>"

text \<open>
  The content \<open>c0ffee\<close> encrypted for \<open>demo_pair\<close> and for \<open>demo_pair2\<close>, and the master keys
  that the re-encryption operations make of \<open>demo_masterKey\<close>.
\<close>

definition demo_buffer :: "byte list" where
  "demo_buffer = map of_char ''k1:eeff0c''"

definition demo_sealed :: string where
  "demo_sealed = demo_stringify (envelope ''ppk1'' (map of_char ''k1:eeff0c''))"

definition demo_sealed2 :: string where
  "demo_sealed2 = demo_stringify (envelope ''ppk2'' (map of_char ''k2:eeff0c''))"

definition demo_masterKey_public :: MasterKeyEntity where
  "demo_masterKey_public =
     demo_masterKey ++ [''encryption_method'' \<mapsto> FMethod Custom,
                        ''content'' \<mapsto> FString demo_sealed]"

definition demo_masterKey_password :: MasterKeyEntity where
  "demo_masterKey_password =
     demo_masterKey_public ++ [''encryption_method'' \<mapsto> FMethod SJCL4,
                               ''content'' \<mapsto> FString ''pw2|c0ffee'']"

definition demo_masterKey_public2 :: MasterKeyEntity where
  "demo_masterKey_public2 =
     demo_masterKey_public ++ [''encryption_method'' \<mapsto> FMethod Custom,
                        ''content'' \<mapsto> FString demo_sealed2]"

section \<open>Basic facts\<close>

lemma and_then_Inr [simp]: "and_then (Inr x) f = f x"
  by (simp add: and_then_def)

lemma and_then_Inl [simp]: "and_then (Inl e) f = Inl e"
  by (simp add: and_then_def)

lemma call_Inr [simp]: "call (Inr x) = Inr x"
  by (simp add: call_def)

lemma call_Inl [simp]: "call (Inl m) = Inl (Thrown m)"
  by (simp add: call_def)

lemma call_eq_Inr: "call r = Inr x \<longleftrightarrow> r = Inr x"
  by (cases r) simp_all


lemma and_then_eq_Inr: "and_then r f = Inr y \<longleftrightarrow> (\<exists>x. r = Inr x \<and> f x = Inr y)"
  by (cases r) simp_all

subsection \<open>Hexadecimal encoding\<close>

lemma hex_value_hex_digit: "n < 16 \<Longrightarrow> hex_value (hex_digit n) = Some n"
  by (auto simp: hex_value_def hex_digit_def Let_def)

lemma byte_nibbles: "unat (b :: byte) div 16 < 16 \<and> unat b mod 16 < 16"
proof -
  have "unat b < 2 ^ LENGTH(8)" by (rule unsigned_less)
  then have "unat b < 256" by simp
  then show ?thesis by auto
qed

text \<open>Decoding what \<open>hex_encode\<close> wrote gives the buffer back.\<close>

lemma hex_decode_encode: "hex_decode (hex_encode bs) = bs"
proof (induction bs)
  case Nil
  show ?case by simp
next
  case (Cons b bs)
  have "word_of_nat (16 * (unat b div 16) + unat b mod 16) = b"
    by simp
  with Cons byte_nibbles [of b] show ?case
    by (simp add: hex_value_hex_digit)
qed

lemma is_hex_string_encode: "is_hex_string (hex_encode bs)"
  using byte_nibbles by (induction bs) (simp_all add: is_hex_string_def hex_value_hex_digit)

subsection \<open>The functions of the module, step by step\<close>

lemma handler_encrypt_unfold:
  "handler_encrypt (ppkEncryptionHandler P i keys) hexaBytes password =
     and_then (call (NodeRSA_encrypt P keys hexaBytes))
       (\<lambda>buffer. Inr (JSON_stringify P (envelope i buffer)))"
  by (simp add: handler_encrypt_def ppkEncryptionHandler_def)

lemma handler_decrypt_unfold:
  "handler_decrypt (ppkEncryptionHandler P i keys) e password =
     and_then (call (JSON_parse P e)) (\<lambda>parsed.
     and_then (js_get parsed ''ppkId'') (\<lambda>parsed_ppkId.
       if parsed_ppkId \<noteq> JStr i then Inl (NeedsPrivateKey parsed_ppkId i)
       else and_then (js_get parsed ''ciphertext'') (\<lambda>c.
            and_then (Buffer_from_hex P c) (\<lambda>buffer. call (NodeRSA_decrypt P keys buffer)))))"
  by (simp add: handler_decrypt_def ppkEncryptionHandler_def cong: if_cong)

lemma js_get_envelope:
  "js_get (envelope i buffer) ''ppkId'' = Inr (JStr i)"
  "js_get (envelope i buffer) ''ciphertext'' = Inr (JStr (hex_encode buffer))"
  by (simp_all add: envelope_def)

lemma generateKeyPair_unfold:
  "generateKeyPair P service password =
     (if \<not> NodeRSA_isPrivate P (generated_keys P) then Inl (Error ''No private key was generated'')
      else if \<not> NodeRSA_isPublic P (generated_keys P) then Inl (Error ''No public key was generated'')
      else
        and_then (call (NodeRSA_exportKey P (generated_keys P) ''pkcs1-private-pem'')) (\<lambda>privatePem.
        and_then (encryptPrivateKey service password privatePem) (\<lambda>encrypted.
        and_then (call (NodeRSA_exportKey P (generated_keys P) ''pkcs1-public-pem'')) (\<lambda>publicPem.
        Inr \<lparr>key_id = uuid_createNano P, publicKey = publicPem,
             privateKey = encrypted, createdTime = Date_now P\<rparr>))))"
  by (simp add: generateKeyPair_def generated_keys_def new_keys_def Let_def)

lemma loadPpk_unfold:
  "loadPpk P service pair password =
     and_then (call (NodeRSA_importKey P (new_keys P) (publicKey pair) ''pkcs1-public-pem'')) (\<lambda>keys.
     and_then (decryptPrivateKey service (privateKey pair) password) (\<lambda>privatePem.
     call (NodeRSA_importKey P keys privatePem ''pkcs1-private-pem'')))"
  by (simp add: loadPpk_def new_keys_def Let_def)

lemma loadPublicKey_unfold:
  "loadPublicKey P pem = call (NodeRSA_importKey P (new_keys P) pem ''pkcs1-public-pem'')"
  by (simp add: loadPublicKey_def new_keys_def Let_def)

lemma generateKeyPair_success:
  assumes "NodeRSA_isPrivate P (generated_keys P)" "NodeRSA_isPublic P (generated_keys P)"
    and "NodeRSA_exportKey P (generated_keys P) ''pkcs1-private-pem'' = Inr privatePem"
    and "service_encrypt service SJCL4 password privatePem = Inr c"
    and "NodeRSA_exportKey P (generated_keys P) ''pkcs1-public-pem'' = Inr publicPem"
  shows "generateKeyPair P service password =
           Inr \<lparr>key_id = uuid_createNano P, publicKey = publicPem,
                privateKey = \<lparr>encryptionMethod = SJCL4, ciphertext = c\<rparr>,
                createdTime = Date_now P\<rparr>"
  using assms by (simp add: generateKeyPair_unfold encryptPrivateKey_def)

lemma loadPpk_success:
  assumes "NodeRSA_importKey P (new_keys P) (publicKey pair) ''pkcs1-public-pem'' = Inr keys1"
    and "service_decrypt service (encryptionMethod (privateKey pair)) password (ciphertext (privateKey pair)) = Inr privatePem"
    and "NodeRSA_importKey P keys1 privatePem ''pkcs1-private-pem'' = Inr keys2"
  shows "loadPpk P service pair password = Inr keys2"
  using assms by (simp add: loadPpk_unfold decryptPrivateKey_def)

lemma generateKeyPairAndSave_success:
  assumes "generateKeyPair P service password = Inr pair"
  shows "generateKeyPairAndSave P service st password =
           (Inr pair, \<lparr>localInfo = (localInfo st)\<lparr>ppk := Some pair\<rparr>,
                       saved = saved st @ [(localInfo st)\<lparr>ppk := Some pair\<rparr>]\<rparr>)"
  using assms by (simp add: generateKeyPairAndSave_def saveLocalSyncInfo_def Let_def)

lemma generateKeyPairAndSave_failure:
  assumes "generateKeyPair P service password = Inl e"
  shows "generateKeyPairAndSave P service st password = (Inl e, st)"
  using assms by (simp add: generateKeyPairAndSave_def)

subsection \<open>Merging new content into a master key\<close>

lemma new_content_dom:
  "dom [''encryption_method'' \<mapsto> m, ''content'' \<mapsto> c] = {''encryption_method'', ''content''}"
  by (simp add: insert_commute)

lemma encryptMasterKeyContent_shape:
  assumes "encryptMasterKeyContent service method plain password options = Inr newContent"
  shows "\<exists>m c. newContent = [''encryption_method'' \<mapsto> FMethod m, ''content'' \<mapsto> FString c]"
proof (cases options)
  case None
  let ?m = "case method of None \<Rightarrow> defaultMasterKeyEncryptionMethod service | Some m \<Rightarrow> m"
  from assms None
  have "and_then (call (service_encrypt service ?m password plain))
          (\<lambda>c. Inr [''encryption_method'' \<mapsto> FMethod ?m, ''content'' \<mapsto> FString c])
        = Inr newContent"
    by (simp only: encryptMasterKeyContent_def Let_def option.case)
  then obtain c where
    "Inr [''encryption_method'' \<mapsto> FMethod ?m, ''content'' \<mapsto> FString c] = (Inr newContent :: error + MasterKeyEntity)"
    unfolding and_then_eq_Inr by blast
  then have "newContent = [''encryption_method'' \<mapsto> FMethod ?m, ''content'' \<mapsto> FString c]"
    by (simp only: sum.inject)
  then show ?thesis by blast
next
  case (Some handler)
  from assms Some
  have "and_then (handler_encrypt handler plain password)
          (\<lambda>c. Inr [''encryption_method'' \<mapsto> FMethod Custom, ''content'' \<mapsto> FString c])
        = Inr newContent"
    by (simp only: encryptMasterKeyContent_def option.case)
  then obtain c where
    "Inr [''encryption_method'' \<mapsto> FMethod Custom, ''content'' \<mapsto> FString c] = (Inr newContent :: error + MasterKeyEntity)"
    unfolding and_then_eq_Inr by blast
  then have "newContent = [''encryption_method'' \<mapsto> FMethod Custom, ''content'' \<mapsto> FString c]"
    by (simp only: sum.inject)
  then show ?thesis by blast
qed

lemma encryptMasterKeyContent_dom:
  assumes "encryptMasterKeyContent service method plain password options = Inr newContent"
  shows "dom newContent = {''encryption_method'', ''content''}"
proof -
  from encryptMasterKeyContent_shape [OF assms] obtain m c
    where "newContent = [''encryption_method'' \<mapsto> FMethod m, ''content'' \<mapsto> FString c]"
    by blast
  then show ?thesis by (simp only: new_content_dom)
qed

lemma merge_frame:
  "(\<forall>f. f \<notin> dom newContent \<longrightarrow> (masterKey ++ newContent) f = masterKey f)
   \<and> (\<forall>f. f \<in> dom newContent \<longrightarrow> (masterKey ++ newContent) f = newContent f)"
  by (auto simp: map_add_def split: option.splits)

lemma replacesI:
  assumes "encryptMasterKeyContent service method plain password options = Inr newContent"
    and "r = masterKey ++ newContent"
  shows "replaces r masterKey"
  unfolding replaces_def
  using encryptMasterKeyContent_dom [OF assms(1)] merge_frame [of newContent masterKey] assms(2)
  by blast

lemma reencryptFromPasswordToPublicKey_Inr:
  assumes "reencryptFromPasswordToPublicKey (P :: 'h platform) service masterKey password target = Inr r"
  shows "\<exists>keys plain newContent.
           encryptMasterKeyContent service (Some Custom) plain []
             (Some (ppkEncryptionHandler P (key_id target) keys)) = Inr newContent
         \<and> r = masterKey ++ newContent"
  using assms
  unfolding reencryptFromPasswordToPublicKey_def Let_def and_then_eq_Inr sum.inject
  by blast

lemma reencryptFromPublicKeyToPassword_Inr:
  assumes "reencryptFromPublicKeyToPassword (P :: 'h platform) service masterKey source sourcePassword newPassword = Inr r"
  shows "\<exists>plain newContent.
           encryptMasterKeyContent service None plain newPassword (None :: 'h EncryptOptions) = Inr newContent
         \<and> r = masterKey ++ newContent"
  using assms
  unfolding reencryptFromPublicKeyToPassword_def Let_def and_then_eq_Inr sum.inject
  by blast

lemma ppkReencryptMasterKey_Inr:
  assumes "ppkReencryptMasterKey (P :: 'h platform) service masterKey source sourcePassword target = Inr r"
  shows "\<exists>keys plain newContent.
           encryptMasterKeyContent service None plain []
             (Some (ppkEncryptionHandler P (key_id target) keys)) = Inr newContent
         \<and> r = masterKey ++ newContent"
  using assms
  unfolding ppkReencryptMasterKey_def reencryptMasterKey_def Let_def and_then_eq_Inr sum.inject
  by blast

subsection \<open>The concrete platform, evaluated\<close>

lemma demo_new_keys: "new_keys demo_platform = DemoKey None None"
  by (simp add: new_keys_def demo_platform_def)

lemma demo_generated_keys: "generated_keys demo_platform = DemoKey (Some ''k1'') (Some ''k1'')"
  by (simp add: generated_keys_def demo_platform_def)

lemma demo_generateKeyPair: "generateKeyPair demo_platform demo_service ''abc123'' = Inr demo_pair"
  unfolding generateKeyPair_unfold demo_generated_keys by code_simp

lemma demo_loadPpk: "loadPpk demo_platform demo_service demo_pair ''abc123'' = Inr demo_full_key"
  unfolding loadPpk_unfold demo_new_keys by code_simp

lemma demo_loadPublicKey: "loadPublicKey demo_platform (publicKey demo_pair) = Inr (DemoKey (Some ''k1'') None)"
  unfolding loadPublicKey_unfold demo_new_keys by code_simp

lemma demo_loadPublicKey2: "loadPublicKey demo_platform (publicKey demo_pair2) = Inr (DemoKey (Some ''k2'') None)"
  unfolding loadPublicKey_unfold demo_new_keys by code_simp

lemma demo_key_ids: "key_id demo_pair = ''ppk1''" "key_id demo_pair2 = ''ppk2''"
  by (simp_all add: demo_pair_def demo_pair2_def)

lemma demo_content: "demo_masterKey ''content'' = Some (FString ''pw1|c0ffee'')"
  "demo_masterKey ''encryption_method'' = Some (FMethod SJCL4)"
  "demo_masterKey ''id'' = Some (FString ''mk1'')"
  by (simp_all add: demo_masterKey_def)

lemma demo_initial:
  "decryptMasterKeyContent demo_service demo_masterKey ''pw1'' (None :: demo_key EncryptOptions) = Inr ''c0ffee''"
proof -
  have "service_decrypt demo_service SJCL4 ''pw1'' ''pw1|c0ffee'' = Inr ''c0ffee''"
    by code_simp
  then show ?thesis by (simp add: decryptMasterKeyContent_def demo_content)
qed

lemma demo_encrypt_public:
  "handler_encrypt (ppkEncryptionHandler demo_platform ''ppk1'' (DemoKey (Some ''k1'') None)) ''c0ffee'' []
     = Inr demo_sealed"
  by code_simp

lemma demo_encrypt_public2:
  "handler_encrypt (ppkEncryptionHandler demo_platform ''ppk2'' (DemoKey (Some ''k2'') None)) ''c0ffee'' []
     = Inr demo_sealed2"
  by code_simp

lemma demo_decrypt_full:
  "handler_decrypt (ppkEncryptionHandler demo_platform ''ppk1'' demo_full_key)
     demo_sealed [] = Inr ''c0ffee''"
  by code_simp

lemma demo_op1:
  "reencryptFromPasswordToPublicKey demo_platform demo_service demo_masterKey ''pw1'' demo_pair
     = Inr demo_masterKey_public"
  by (simp add: reencryptFromPasswordToPublicKey_def demo_loadPublicKey demo_initial
        encryptMasterKeyContent_def demo_key_ids demo_encrypt_public demo_masterKey_public_def)

lemma demo_public_content:
  "demo_masterKey_public ''content'' = Some (FString demo_sealed)"
  by (simp add: demo_masterKey_public_def)

lemma demo_op2:
  "reencryptFromPublicKeyToPassword demo_platform demo_service demo_masterKey_public demo_pair ''abc123'' ''pw2''
     = Inr demo_masterKey_password"
proof -
  have "service_encrypt demo_service (defaultMasterKeyEncryptionMethod demo_service) ''pw2'' ''c0ffee''
          = Inr ''pw2|c0ffee''"
    "defaultMasterKeyEncryptionMethod demo_service = SJCL4"
    by code_simp+
  then show ?thesis
    by (simp add: reencryptFromPublicKeyToPassword_def demo_loadPpk decryptMasterKeyContent_def
        demo_public_content demo_key_ids demo_decrypt_full encryptMasterKeyContent_def
        demo_masterKey_password_def)
qed

lemma demo_op3:
  "ppkReencryptMasterKey demo_platform demo_service demo_masterKey_public demo_pair ''abc123'' demo_pair2
     = Inr demo_masterKey_public2"
  by (simp add: ppkReencryptMasterKey_def reencryptMasterKey_def demo_loadPpk demo_loadPublicKey2
        decryptMasterKeyContent_def demo_public_content demo_key_ids demo_decrypt_full
        encryptMasterKeyContent_def demo_encrypt_public2 demo_masterKey_public2_def)

section \<open>The envelope\<close>

text \<open>
  Claim C6. Every envelope that a handler's \<open>encrypt\<close> returns is the serialisation of an
  object with exactly three properties: \<open>ppkId\<close>, the id of the key pair the handler was
  built for; \<open>scheme\<close>, the scheme tag \<open>pkcs1_oaep\<close>; and \<open>ciphertext\<close>, the encrypted
  buffer written as a hexadecimal string (an even number of hexadecimal digits, from which
  the buffer can be read back).
\<close>

theorem encrypt_envelope:
  assumes "handler_encrypt (ppkEncryptionHandler P (key_id pair) keys) hexaBytes password = Inr e"
  shows "\<exists>buffer. NodeRSA_encrypt P keys hexaBytes = Inr buffer
           \<and> e = JSON_stringify P (JObj [(''ppkId'', JStr (key_id pair)),
                                         (''scheme'', JStr ''pkcs1_oaep''),
                                         (''ciphertext'', JStr (hex_encode buffer))])
           \<and> is_hex_string (hex_encode buffer)
           \<and> hex_decode (hex_encode buffer) = buffer"
proof -
  from assms obtain buffer where b: "NodeRSA_encrypt P keys hexaBytes = Inr buffer"
    and e: "e = JSON_stringify P (envelope (key_id pair) buffer)"
    by (auto simp: handler_encrypt_unfold and_then_eq_Inr call_eq_Inr)
  from b e show ?thesis
    by (simp add: envelope_def nodeRSAEncryptionScheme_def is_hex_string_encode hex_decode_encode)
qed

text \<open>
  On the concrete platform, the handler of \<open>demo_pair\<close> encrypts \<open>48656c6c6f\<close> to an
  envelope whose \<open>ppkId\<close> is \<open>ppk1\<close>, the id of the pair.
\<close>

theorem encrypt_envelope_witness:
  "handler_encrypt (ppkEncryptionHandler demo_platform (key_id demo_pair) demo_full_key) ''48656c6c6f'' []
     = Inr (demo_stringify (JObj [(''ppkId'', JStr ''ppk1''), (''scheme'', JStr ''pkcs1_oaep''),
                                  (''ciphertext'', JStr ''6b313a66366336633635363834'')]))
   \<and> (\<exists>buffer. NodeRSA_encrypt demo_platform demo_full_key ''48656c6c6f'' = Inr buffer
           \<and> demo_stringify (JObj [(''ppkId'', JStr ''ppk1''), (''scheme'', JStr ''pkcs1_oaep''),
                                  (''ciphertext'', JStr ''6b313a66366336633635363834'')])
             = JSON_stringify demo_platform (JObj [(''ppkId'', JStr (key_id demo_pair)),
                                         (''scheme'', JStr ''pkcs1_oaep''),
                                         (''ciphertext'', JStr (hex_encode buffer))])
           \<and> is_hex_string (hex_encode buffer)
           \<and> hex_decode (hex_encode buffer) = buffer)"
proof -
  have h: "handler_encrypt (ppkEncryptionHandler demo_platform (key_id demo_pair) demo_full_key) ''48656c6c6f'' []
     = Inr (demo_stringify (JObj [(''ppkId'', JStr ''ppk1''), (''scheme'', JStr ''pkcs1_oaep''),
                                  (''ciphertext'', JStr ''6b313a66366336633635363834'')]))"
    by code_simp
  from encrypt_envelope [OF h] h show ?thesis by blast
qed

section \<open>Round trip and key mismatch\<close>

text \<open>
  Claim C2. A handler decrypts what it encrypted: for every string \<open>b\<close> (the hexadecimal
  text of the bytes) and every key pair, when the RSA object of the handler encrypts \<open>b\<close>
  to a buffer that it decrypts back to \<open>b\<close>, and \<^verbatim>\<open>JSON.parse\<close> returns the object that
  \<^verbatim>\<open>JSON.stringify\<close> was given, the handler's \<open>encrypt\<close> returns an envelope and its
  \<open>decrypt\<close> of that envelope returns \<open>b\<close>.
\<close>

theorem handler_roundtrip:
  assumes enc: "NodeRSA_encrypt P keys b = Inr buffer"
    and dec: "NodeRSA_decrypt P keys buffer = Inr b"
    and json: "JSON_parse P (JSON_stringify P (envelope (key_id pair) buffer))
                 = Inr (envelope (key_id pair) buffer)"
  shows "\<exists>e. handler_encrypt (ppkEncryptionHandler P (key_id pair) keys) b password = Inr e
           \<and> handler_decrypt (ppkEncryptionHandler P (key_id pair) keys) e password' = Inr b"
proof -
  let ?e = "JSON_stringify P (envelope (key_id pair) buffer)"
  have "handler_encrypt (ppkEncryptionHandler P (key_id pair) keys) b password = Inr ?e"
    by (simp add: handler_encrypt_unfold enc)
  moreover have "handler_decrypt (ppkEncryptionHandler P (key_id pair) keys) ?e password' = Inr b"
    by (simp add: handler_decrypt_unfold json js_get_envelope hex_decode_encode dec)
  ultimately show ?thesis by blast
qed

text \<open>
  The scenario of the spec: the handler of \<open>demo_pair\<close> and the text \<open>48656c6c6f\<close>.
\<close>

theorem handler_roundtrip_witness:
  "NodeRSA_encrypt demo_platform demo_full_key ''48656c6c6f'' = Inr (map of_char ''k1:f6c6c65684'')
   \<and> NodeRSA_decrypt demo_platform demo_full_key (map of_char ''k1:f6c6c65684'') = Inr ''48656c6c6f''
   \<and> JSON_parse demo_platform (JSON_stringify demo_platform (envelope (key_id demo_pair) (map of_char ''k1:f6c6c65684'')))
        = Inr (envelope (key_id demo_pair) (map of_char ''k1:f6c6c65684''))
   \<and> (\<exists>e. handler_encrypt (ppkEncryptionHandler demo_platform (key_id demo_pair) demo_full_key) ''48656c6c6f'' ''abc123'' = Inr e
           \<and> handler_decrypt (ppkEncryptionHandler demo_platform (key_id demo_pair) demo_full_key) e ''abc123'' = Inr ''48656c6c6f'')"
proof -
  have enc: "NodeRSA_encrypt demo_platform demo_full_key ''48656c6c6f'' = Inr (map of_char ''k1:f6c6c65684'')"
    by code_simp
  have dec: "NodeRSA_decrypt demo_platform demo_full_key (map of_char ''k1:f6c6c65684'') = Inr ''48656c6c6f''"
    by code_simp
  have json: "JSON_parse demo_platform (JSON_stringify demo_platform (envelope (key_id demo_pair) (map of_char ''k1:f6c6c65684'')))
        = Inr (envelope (key_id demo_pair) (map of_char ''k1:f6c6c65684''))"
    by code_simp
  from handler_roundtrip [OF enc dec json] enc dec json show ?thesis by blast
qed

text \<open>
  Claim C1. When the handler built for the key pair \<open>k2\<close> decrypts an envelope that the
  handler built for \<open>k1\<close> produced, and the two ids differ, the result is the error
  \<^verbatim>\<open>Needs private key <id of k1> to decrypt, but using <id of k2>\<close>, which carries both
  ids. The RSA decryption is not attempted: the result is the same whatever
  \<^verbatim>\<open>nodeRSA.decrypt\<close> and \<^verbatim>\<open>Buffer.from\<close> would do.
\<close>

theorem key_mismatch:
  assumes enc: "NodeRSA_encrypt P keys1 b = Inr buffer"
    and json: "JSON_parse P (JSON_stringify P (envelope (key_id k1) buffer))
                 = Inr (envelope (key_id k1) buffer)"
    and ids: "key_id k1 \<noteq> key_id k2"
  shows "\<exists>e. handler_encrypt (ppkEncryptionHandler P (key_id k1) keys1) b password = Inr e
           \<and> handler_decrypt (ppkEncryptionHandler P (key_id k2) keys2) e password'
               = Inl (NeedsPrivateKey (JStr (key_id k1)) (key_id k2))
           \<and> (\<forall>d f. handler_decrypt
                      (ppkEncryptionHandler (P\<lparr>NodeRSA_decrypt := d, Buffer_from_object := f\<rparr>) (key_id k2) keys2)
                      e password'
                    = Inl (NeedsPrivateKey (JStr (key_id k1)) (key_id k2)))"
proof -
  let ?e = "JSON_stringify P (envelope (key_id k1) buffer)"
  have "handler_encrypt (ppkEncryptionHandler P (key_id k1) keys1) b password = Inr ?e"
    by (simp add: handler_encrypt_unfold enc)
  moreover have "handler_decrypt (ppkEncryptionHandler P (key_id k2) keys2) ?e password'
      = Inl (NeedsPrivateKey (JStr (key_id k1)) (key_id k2))"
    using ids by (simp add: handler_decrypt_unfold json js_get_envelope)
  moreover have "handler_decrypt
        (ppkEncryptionHandler (P\<lparr>NodeRSA_decrypt := d, Buffer_from_object := f\<rparr>) (key_id k2) keys2)
        ?e password'
      = Inl (NeedsPrivateKey (JStr (key_id k1)) (key_id k2))" for d f
    using ids by (simp add: handler_decrypt_unfold json js_get_envelope)
  ultimately show ?thesis by blast
qed

text \<open>
  The handler of \<open>demo_pair2\<close> refuses an envelope of the handler of \<open>demo_pair\<close>.
\<close>

theorem key_mismatch_witness:
  "NodeRSA_encrypt demo_platform demo_full_key ''48656c6c6f'' = Inr (map of_char ''k1:f6c6c65684'')
   \<and> JSON_parse demo_platform (JSON_stringify demo_platform (envelope (key_id demo_pair) (map of_char ''k1:f6c6c65684'')))
        = Inr (envelope (key_id demo_pair) (map of_char ''k1:f6c6c65684''))
   \<and> key_id demo_pair \<noteq> key_id demo_pair2
   \<and> (\<exists>e. handler_encrypt (ppkEncryptionHandler demo_platform (key_id demo_pair) demo_full_key) ''48656c6c6f'' [] = Inr e
           \<and> handler_decrypt (ppkEncryptionHandler demo_platform (key_id demo_pair2) demo_full_key2) e []
               = Inl (NeedsPrivateKey (JStr ''ppk1'') ''ppk2''))"
proof -
  have enc: "NodeRSA_encrypt demo_platform demo_full_key ''48656c6c6f'' = Inr (map of_char ''k1:f6c6c65684'')"
    by code_simp
  have json: "JSON_parse demo_platform (JSON_stringify demo_platform (envelope (key_id demo_pair) (map of_char ''k1:f6c6c65684'')))
        = Inr (envelope (key_id demo_pair) (map of_char ''k1:f6c6c65684''))"
    by code_simp
  have ids: "key_id demo_pair \<noteq> key_id demo_pair2"
    by (simp add: demo_pair_def demo_pair2_def)
  have names: "key_id demo_pair = ''ppk1''" "key_id demo_pair2 = ''ppk2''"
    by (simp_all add: demo_pair_def demo_pair2_def)
  have "\<exists>e. handler_encrypt (ppkEncryptionHandler demo_platform (key_id demo_pair) demo_full_key) ''48656c6c6f'' [] = Inr e
           \<and> handler_decrypt (ppkEncryptionHandler demo_platform (key_id demo_pair2) demo_full_key2) e []
               = Inl (NeedsPrivateKey (JStr (key_id demo_pair)) (key_id demo_pair2))
           \<and> (\<forall>d f. handler_decrypt
                      (ppkEncryptionHandler (demo_platform\<lparr>NodeRSA_decrypt := d, Buffer_from_object := f\<rparr>) (key_id demo_pair2) demo_full_key2)
                      e []
                    = Inl (NeedsPrivateKey (JStr (key_id demo_pair)) (key_id demo_pair2)))"
    by (rule key_mismatch [OF enc json ids])
  with enc json ids show ?thesis unfolding names by blast
qed



section \<open>Validating a password\<close>

text \<open>
  Claim C10. Without a key pair (\<^verbatim>\<open>undefined\<close> or \<^verbatim>\<open>null\<close>), \<open>ppkPasswordIsValid\<close> throws
  \<^verbatim>\<open>PPK is undefined\<close>; it returns \<^verbatim>\<open>false\<close> exactly when it was given a key pair and
  loading that key pair failed.
\<close>

theorem ppkPasswordIsValid_undefined:
  "ppkPasswordIsValid P service None password = Inl (Error ''PPK is undefined'')
   \<and> (ppkPasswordIsValid P service ppk' password = Inr False
        \<longleftrightarrow> (\<exists>pair e. ppk' = Some pair \<and> loadPpk P service pair password = Inl e))"
  by (auto simp: ppkPasswordIsValid_def split: option.splits sum.splits)

text \<open>
  Without a key pair the call throws; with \<open>demo_pair\<close> and a wrong password it returns \<^verbatim>\<open>false\<close>.
\<close>

theorem ppkPasswordIsValid_undefined_witness:
  "ppkPasswordIsValid demo_platform demo_service None ''abc123'' = Inl (Error ''PPK is undefined'')
   \<and> loadPpk demo_platform demo_service demo_pair ''letmein'' = Inl (Thrown ''Invalid password'')
   \<and> ppkPasswordIsValid demo_platform demo_service (Some demo_pair) ''letmein'' = Inr False"
proof -
  have l: "loadPpk demo_platform demo_service demo_pair ''letmein'' = Inl (Thrown ''Invalid password'')"
    by code_simp
  note t = ppkPasswordIsValid_undefined [of demo_platform demo_service "''abc123''"]
  note u = ppkPasswordIsValid_undefined [of demo_platform demo_service "''letmein''" "Some demo_pair"]
  from l u have "ppkPasswordIsValid demo_platform demo_service (Some demo_pair) ''letmein'' = Inr False"
    by blast
  with t l show ?thesis by blast
qed

text \<open>
  Claim C3. The password that generated a key pair validates it: when generation succeeds,
  the service decrypts under \<open>p\<close> what it encrypted under \<open>p\<close>, and the RSA library
  imports the keys it exported, \<open>ppkPasswordIsValid\<close> returns \<^verbatim>\<open>true\<close> for the generated
  pair and \<open>p\<close>. And whenever the decryption of the stored private key fails,
  \<open>ppkPasswordIsValid\<close> returns \<^verbatim>\<open>false\<close>; the error does not propagate.
\<close>

theorem generated_password_valid:
  "(NodeRSA_isPrivate P (generated_keys P) \<and> NodeRSA_isPublic P (generated_keys P)
      \<and> NodeRSA_exportKey P (generated_keys P) ''pkcs1-private-pem'' = Inr privatePem
      \<and> service_encrypt service SJCL4 p privatePem = Inr c
      \<and> NodeRSA_exportKey P (generated_keys P) ''pkcs1-public-pem'' = Inr publicPem
      \<and> service_decrypt service SJCL4 p c = Inr privatePem
      \<and> NodeRSA_importKey P (new_keys P) publicPem ''pkcs1-public-pem'' = Inr keys1
      \<and> NodeRSA_importKey P keys1 privatePem ''pkcs1-private-pem'' = Inr keys2
     \<longrightarrow> (\<exists>pair. generateKeyPair P service p = Inr pair
            \<and> ppkPasswordIsValid P service (Some pair) p = Inr True))
   \<and> (decryptPrivateKey service (privateKey stored) password = Inl e
     \<longrightarrow> ppkPasswordIsValid P service (Some stored) password = Inr False)"
proof (intro conjI impI)
  assume a: "NodeRSA_isPrivate P (generated_keys P) \<and> NodeRSA_isPublic P (generated_keys P)
      \<and> NodeRSA_exportKey P (generated_keys P) ''pkcs1-private-pem'' = Inr privatePem
      \<and> service_encrypt service SJCL4 p privatePem = Inr c
      \<and> NodeRSA_exportKey P (generated_keys P) ''pkcs1-public-pem'' = Inr publicPem
      \<and> service_decrypt service SJCL4 p c = Inr privatePem
      \<and> NodeRSA_importKey P (new_keys P) publicPem ''pkcs1-public-pem'' = Inr keys1
      \<and> NodeRSA_importKey P keys1 privatePem ''pkcs1-private-pem'' = Inr keys2"
  let ?pair = "\<lparr>key_id = uuid_createNano P, publicKey = publicPem,
                privateKey = \<lparr>encryptionMethod = SJCL4, ciphertext = c\<rparr>,
                createdTime = Date_now P\<rparr>"
  from a have gen: "generateKeyPair P service p = Inr ?pair"
    by (intro generateKeyPair_success) blast+
  from a have "loadPpk P service ?pair p = Inr keys2"
    using loadPpk_success [of P ?pair keys1 service p privatePem keys2] by simp
  then have "ppkPasswordIsValid P service (Some ?pair) p = Inr True"
    by (simp add: ppkPasswordIsValid_def)
  with gen show "\<exists>pair. generateKeyPair P service p = Inr pair
            \<and> ppkPasswordIsValid P service (Some pair) p = Inr True"
    by blast
next
  assume "decryptPrivateKey service (privateKey stored) password = Inl e"
  then have "\<exists>e'. loadPpk P service stored password = Inl e'"
    by (cases "NodeRSA_importKey P (new_keys P) (publicKey stored) ''pkcs1-public-pem''")
       (simp_all add: loadPpk_unfold)
  then show "ppkPasswordIsValid P service (Some stored) password = Inr False"
    by (auto simp: ppkPasswordIsValid_def)
qed

text \<open>
  The key pair generated with \<open>abc123\<close> is valid for \<open>abc123\<close> and not for \<open>letmein\<close>.
\<close>

theorem generated_password_valid_witness:
  "NodeRSA_exportKey demo_platform (generated_keys demo_platform) ''pkcs1-private-pem'' = Inr ''PRIVATE k1''
   \<and> service_encrypt demo_service SJCL4 ''abc123'' ''PRIVATE k1'' = Inr ''abc123|PRIVATE k1''
   \<and> service_decrypt demo_service SJCL4 ''abc123'' ''abc123|PRIVATE k1'' = Inr ''PRIVATE k1''
   \<and> (\<exists>pair. generateKeyPair demo_platform demo_service ''abc123'' = Inr pair
         \<and> ppkPasswordIsValid demo_platform demo_service (Some pair) ''abc123'' = Inr True)
   \<and> decryptPrivateKey demo_service (privateKey demo_pair) ''letmein'' = Inl (Thrown ''Invalid password'')
   \<and> ppkPasswordIsValid demo_platform demo_service (Some demo_pair) ''letmein'' = Inr False"
proof -
  note g = demo_generated_keys
  note n = demo_new_keys
  have h1: "NodeRSA_isPrivate demo_platform (generated_keys demo_platform)"
    unfolding g by code_simp
  have h2: "NodeRSA_isPublic demo_platform (generated_keys demo_platform)"
    unfolding g by code_simp
  have h3: "NodeRSA_exportKey demo_platform (generated_keys demo_platform) ''pkcs1-private-pem'' = Inr ''PRIVATE k1''"
    unfolding g by code_simp
  have h4: "service_encrypt demo_service SJCL4 ''abc123'' ''PRIVATE k1'' = Inr ''abc123|PRIVATE k1''"
    by code_simp
  have h5: "NodeRSA_exportKey demo_platform (generated_keys demo_platform) ''pkcs1-public-pem'' = Inr ''PUBLIC k1''"
    unfolding g by code_simp
  have h6: "service_decrypt demo_service SJCL4 ''abc123'' ''abc123|PRIVATE k1'' = Inr ''PRIVATE k1''"
    by code_simp
  have h7: "NodeRSA_importKey demo_platform (new_keys demo_platform) ''PUBLIC k1'' ''pkcs1-public-pem''
              = Inr (DemoKey (Some ''k1'') None)"
    unfolding n by code_simp
  have h8: "NodeRSA_importKey demo_platform (DemoKey (Some ''k1'') None) ''PRIVATE k1'' ''pkcs1-private-pem''
              = Inr (DemoKey (Some ''k1'') (Some ''k1''))"
    by code_simp
  have h9: "decryptPrivateKey demo_service (privateKey demo_pair) ''letmein'' = Inl (Thrown ''Invalid password'')"
    by code_simp
  note t = generated_password_valid [where P = demo_platform and service = demo_service
      and p = "''abc123''" and privatePem = "''PRIVATE k1''" and c = "''abc123|PRIVATE k1''"
      and publicPem = "''PUBLIC k1''" and ?keys1.0 = "DemoKey (Some ''k1'') None"
      and ?keys2.0 = "DemoKey (Some ''k1'') (Some ''k1'')"
      and stored = demo_pair and password = "''letmein''" and e = "Thrown ''Invalid password''"]
  have a: "\<exists>pair. generateKeyPair demo_platform demo_service ''abc123'' = Inr pair
         \<and> ppkPasswordIsValid demo_platform demo_service (Some pair) ''abc123'' = Inr True"
    by (rule t [THEN conjunct1, THEN mp]) (intro conjI h1 h2 h3 h4 h5 h6 h7 h8)
  have b: "ppkPasswordIsValid demo_platform demo_service (Some demo_pair) ''letmein'' = Inr False"
    by (rule t [THEN conjunct2, THEN mp]) (rule h9)
  show ?thesis by (intro conjI a b h3 h4 h6 h9)
qed

section \<open>Generating a key pair\<close>

text \<open>
  Claim C4. \<open>generateKeyPair\<close> asks the RSA library for a key of 2048 bits with the public
  exponent 65537, and only that request matters to its result. It fails with
  \<^verbatim>\<open>No private key was generated\<close> or \<^verbatim>\<open>No public key was generated\<close> when the generated
  object lacks the private or the public component. Otherwise (the exports and the
  encryption succeeding) it returns the key pair whose private key is the exported private
  component encrypted with the password, together with the method used, \<open>SJCL4\<close>.
  The function returns a value and takes no state: it has no other effect.
\<close>

theorem generateKeyPair_contract:
  "(\<not> NodeRSA_isPrivate P (NodeRSA_generateKeyPair P (new_keys P) 2048 65537)
      \<longrightarrow> generateKeyPair P service password = Inl (Error ''No private key was generated''))
   \<and> (NodeRSA_isPrivate P (NodeRSA_generateKeyPair P (new_keys P) 2048 65537)
      \<and> \<not> NodeRSA_isPublic P (NodeRSA_generateKeyPair P (new_keys P) 2048 65537)
      \<longrightarrow> generateKeyPair P service password = Inl (Error ''No public key was generated''))
   \<and> (NodeRSA_isPrivate P (NodeRSA_generateKeyPair P (new_keys P) 2048 65537)
      \<and> NodeRSA_isPublic P (NodeRSA_generateKeyPair P (new_keys P) 2048 65537)
      \<and> NodeRSA_exportKey P (NodeRSA_generateKeyPair P (new_keys P) 2048 65537) ''pkcs1-private-pem'' = Inr privatePem
      \<and> service_encrypt service SJCL4 password privatePem = Inr c
      \<and> NodeRSA_exportKey P (NodeRSA_generateKeyPair P (new_keys P) 2048 65537) ''pkcs1-public-pem'' = Inr publicPem
      \<longrightarrow> generateKeyPair P service password =
            Inr \<lparr>key_id = uuid_createNano P, publicKey = publicPem,
                 privateKey = \<lparr>encryptionMethod = SJCL4, ciphertext = c\<rparr>,
                 createdTime = Date_now P\<rparr>)
   \<and> (g (new_keys P) 2048 65537 = NodeRSA_generateKeyPair P (new_keys P) 2048 65537
      \<longrightarrow> generateKeyPair (P\<lparr>NodeRSA_generateKeyPair := g\<rparr>) service password
            = generateKeyPair P service password)"
proof (intro conjI impI)
  assume "g (new_keys P) 2048 65537 = NodeRSA_generateKeyPair P (new_keys P) 2048 65537"
  then show "generateKeyPair (P\<lparr>NodeRSA_generateKeyPair := g\<rparr>) service password
            = generateKeyPair P service password"
    by (simp add: generateKeyPair_def new_keys_def Let_def)
qed (simp_all add: generateKeyPair_unfold generated_keys_def encryptPrivateKey_def)

text \<open>
  The two failures, the generated pair, and the generator that differs only on other requests.
\<close>

theorem generateKeyPair_contract_witness:
  "generateKeyPair demo_platform_no_private demo_service ''abc123'' = Inl (Error ''No private key was generated'')
   \<and> generateKeyPair demo_platform_no_public demo_service ''abc123'' = Inl (Error ''No public key was generated'')
   \<and> generateKeyPair demo_platform demo_service ''abc123'' = Inr demo_pair
   \<and> generateKeyPair (demo_platform\<lparr>NodeRSA_generateKeyPair := demo_generator\<rparr>) demo_service ''abc123''
       = generateKeyPair demo_platform demo_service ''abc123''"
proof -
  have k1: "NodeRSA_generateKeyPair demo_platform_no_private (new_keys demo_platform_no_private) 2048 65537
              = DemoKey (Some ''k1'') None"
    by (simp add: demo_platform_no_private_def)
  have k2: "NodeRSA_generateKeyPair demo_platform_no_public (new_keys demo_platform_no_public) 2048 65537
              = DemoKey None (Some ''k1'')"
    by (simp add: demo_platform_no_public_def)
  have k3: "NodeRSA_generateKeyPair demo_platform (new_keys demo_platform) 2048 65537
              = DemoKey (Some ''k1'') (Some ''k1'')"
    by (simp add: demo_platform_def)
  have a: "\<not> NodeRSA_isPrivate demo_platform_no_private
               (NodeRSA_generateKeyPair demo_platform_no_private (new_keys demo_platform_no_private) 2048 65537)"
    unfolding k1 by code_simp
  have b: "NodeRSA_isPrivate demo_platform_no_public
               (NodeRSA_generateKeyPair demo_platform_no_public (new_keys demo_platform_no_public) 2048 65537)
           \<and> \<not> NodeRSA_isPublic demo_platform_no_public
               (NodeRSA_generateKeyPair demo_platform_no_public (new_keys demo_platform_no_public) 2048 65537)"
    unfolding k2 by code_simp
  have c: "NodeRSA_isPrivate demo_platform (NodeRSA_generateKeyPair demo_platform (new_keys demo_platform) 2048 65537)
      \<and> NodeRSA_isPublic demo_platform (NodeRSA_generateKeyPair demo_platform (new_keys demo_platform) 2048 65537)
      \<and> NodeRSA_exportKey demo_platform (NodeRSA_generateKeyPair demo_platform (new_keys demo_platform) 2048 65537)
            ''pkcs1-private-pem'' = Inr ''PRIVATE k1''
      \<and> service_encrypt demo_service SJCL4 ''abc123'' ''PRIVATE k1'' = Inr ''abc123|PRIVATE k1''
      \<and> NodeRSA_exportKey demo_platform (NodeRSA_generateKeyPair demo_platform (new_keys demo_platform) 2048 65537)
            ''pkcs1-public-pem'' = Inr ''PUBLIC k1''"
    unfolding k3 by code_simp
  have d: "demo_generator (new_keys demo_platform) 2048 65537
             = NodeRSA_generateKeyPair demo_platform (new_keys demo_platform) 2048 65537"
    unfolding k3 by (simp add: demo_generator_def)
  have ids: "uuid_createNano demo_platform = ''ppk1''" "Date_now demo_platform = 1635000000000"
    by (simp_all add: demo_platform_def)
  note t1 = generateKeyPair_contract [where P = demo_platform_no_private and service = demo_service
      and password = "''abc123''"]
  note t2 = generateKeyPair_contract [where P = demo_platform_no_public and service = demo_service
      and password = "''abc123''"]
  note t3 = generateKeyPair_contract [where P = demo_platform and service = demo_service
      and password = "''abc123''" and privatePem = "''PRIVATE k1''" and c = "''abc123|PRIVATE k1''"
      and publicPem = "''PUBLIC k1''" and g = demo_generator]
  have r1: "generateKeyPair demo_platform_no_private demo_service ''abc123''
              = Inl (Error ''No private key was generated'')"
    by (rule t1 [THEN conjunct1, THEN mp]) (rule a)
  have r2: "generateKeyPair demo_platform_no_public demo_service ''abc123''
              = Inl (Error ''No public key was generated'')"
    by (rule t2 [THEN conjunct2, THEN conjunct1, THEN mp]) (rule b)
  have r3: "generateKeyPair demo_platform demo_service ''abc123'' =
            Inr \<lparr>key_id = uuid_createNano demo_platform, publicKey = ''PUBLIC k1'',
                 privateKey = \<lparr>encryptionMethod = SJCL4, ciphertext = ''abc123|PRIVATE k1''\<rparr>,
                 createdTime = Date_now demo_platform\<rparr>"
    by (rule t3 [THEN conjunct2, THEN conjunct2, THEN conjunct1, THEN mp]) (rule c)
  have r4: "generateKeyPair (demo_platform\<lparr>NodeRSA_generateKeyPair := demo_generator\<rparr>) demo_service ''abc123''
       = generateKeyPair demo_platform demo_service ''abc123''"
    by (rule t3 [THEN conjunct2, THEN conjunct2, THEN conjunct2, THEN mp]) (rule d)
  have r3': "generateKeyPair demo_platform demo_service ''abc123'' = Inr demo_pair"
    unfolding r3 ids demo_pair_def by (rule refl)
  show ?thesis by (intro conjI r1 r2 r3' r4)
qed

section \<open>Creating the key pair when there is none\<close>

text \<open>
  Claim C8. \<open>setPpkIfNotExist\<close> changes nothing (the local sync info is the same and
  nothing is saved) when the local or the remote sync info has a key pair, when there is
  no active master key, or when there is no master password. In the remaining case it
  generates a key pair with the master password, assigns it to \<^verbatim>\<open>localInfo.ppk\<close> and saves
  the local sync info.
\<close>

theorem setPpkIfNotExist_cases:
  "(ppk (localInfo st) \<noteq> None \<or> ppk remoteInfo \<noteq> None
      \<or> getActiveMasterKey P (localInfo st) = None
      \<or> getMasterPassword P False = Inr []
     \<longrightarrow> setPpkIfNotExist P service st remoteInfo = (Inr (), st))
   \<and> (ppk (localInfo st) = None \<and> ppk remoteInfo = None
      \<and> getActiveMasterKey P (localInfo st) = Some masterKey
      \<and> getMasterPassword P False = Inr password \<and> password \<noteq> []
      \<and> getMasterPassword P True = Inr password2
      \<and> generateKeyPair P service password2 = Inr pair
     \<longrightarrow> setPpkIfNotExist P service st remoteInfo =
           (Inr (), \<lparr>localInfo = (localInfo st)\<lparr>ppk := Some pair\<rparr>,
                     saved = saved st @ [(localInfo st)\<lparr>ppk := Some pair\<rparr>]\<rparr>))"
proof (intro conjI impI)
  assume "ppk (localInfo st) \<noteq> None \<or> ppk remoteInfo \<noteq> None
      \<or> getActiveMasterKey P (localInfo st) = None
      \<or> getMasterPassword P False = Inr []"
  then show "setPpkIfNotExist P service st remoteInfo = (Inr (), st)"
    by (auto simp: setPpkIfNotExist_def split: option.splits)
next
  assume a: "ppk (localInfo st) = None \<and> ppk remoteInfo = None
      \<and> getActiveMasterKey P (localInfo st) = Some masterKey
      \<and> getMasterPassword P False = Inr password \<and> password \<noteq> []
      \<and> getMasterPassword P True = Inr password2
      \<and> generateKeyPair P service password2 = Inr pair"
  then have "generateKeyPairAndSave P service st password2 =
           (Inr pair, \<lparr>localInfo = (localInfo st)\<lparr>ppk := Some pair\<rparr>,
                       saved = saved st @ [(localInfo st)\<lparr>ppk := Some pair\<rparr>]\<rparr>)"
    by (intro generateKeyPairAndSave_success) blast
  with a show "setPpkIfNotExist P service st remoteInfo =
           (Inr (), \<lparr>localInfo = (localInfo st)\<lparr>ppk := Some pair\<rparr>,
                     saved = saved st @ [(localInfo st)\<lparr>ppk := Some pair\<rparr>]\<rparr>)"
    by (simp add: setPpkIfNotExist_def)
qed

text \<open>
  With a key pair already there nothing changes; without one, \<open>demo_pair\<close> is generated,
  assigned and saved.
\<close>

theorem setPpkIfNotExist_cases_witness:
  "ppk (localInfo demo_state_with_pair) \<noteq> None
   \<and> setPpkIfNotExist demo_platform demo_service demo_state_with_pair demo_remoteInfo
       = (Inr (), demo_state_with_pair)
   \<and> ppk (localInfo demo_state) = None \<and> ppk demo_remoteInfo = None
   \<and> getActiveMasterKey demo_platform (localInfo demo_state) = Some demo_masterKey
   \<and> getMasterPassword demo_platform False = Inr ''abc123''
   \<and> generateKeyPair demo_platform demo_service ''abc123'' = Inr demo_pair
   \<and> setPpkIfNotExist demo_platform demo_service demo_state demo_remoteInfo
       = (Inr (), \<lparr>localInfo = demo_localInfo\<lparr>ppk := Some demo_pair\<rparr>,
                   saved = [demo_localInfo\<lparr>ppk := Some demo_pair\<rparr>]\<rparr>)"
proof -
  have a: "ppk (localInfo demo_state_with_pair) \<noteq> None"
    by (simp add: demo_state_with_pair_def)
  have b1: "ppk (localInfo demo_state) = None"
    by (simp add: demo_state_def demo_localInfo_def)
  have b2: "ppk demo_remoteInfo = None"
    by (simp add: demo_remoteInfo_def)
  have "demo_masterKey ''id'' = Some (FString ''mk1'')"
    by (simp add: demo_masterKey_def)
  then have c: "getActiveMasterKey demo_platform (localInfo demo_state) = Some demo_masterKey"
    by (simp add: demo_platform_def demo_getActiveMasterKey_def demo_state_def demo_localInfo_def)
  have d1: "getMasterPassword demo_platform False = Inr ''abc123''"
    by (simp add: demo_platform_def)
  have d2: "getMasterPassword demo_platform True = Inr ''abc123''"
    by (simp add: demo_platform_def)
  note e = demo_generateKeyPair
  have f: "''abc123'' \<noteq> []" by simp
  note t1 = setPpkIfNotExist_cases [where st = demo_state_with_pair and remoteInfo = demo_remoteInfo
      and P = demo_platform and service = demo_service]
  note t2 = setPpkIfNotExist_cases [where st = demo_state and remoteInfo = demo_remoteInfo
      and P = demo_platform and service = demo_service and masterKey = demo_masterKey
      and password = "''abc123''" and ?password2.0 = "''abc123''" and pair = demo_pair]
  have r1: "setPpkIfNotExist demo_platform demo_service demo_state_with_pair demo_remoteInfo
       = (Inr (), demo_state_with_pair)"
    by (rule t1 [THEN conjunct1, THEN mp]) (rule disjI1, rule a)
  have r2: "setPpkIfNotExist demo_platform demo_service demo_state demo_remoteInfo
       = (Inr (), \<lparr>localInfo = (localInfo demo_state)\<lparr>ppk := Some demo_pair\<rparr>,
                   saved = saved demo_state @ [(localInfo demo_state)\<lparr>ppk := Some demo_pair\<rparr>]\<rparr>)"
    by (rule t2 [THEN conjunct2, THEN mp]) (intro conjI b1 b2 c d1 d2 e f)
  have g: "localInfo demo_state = demo_localInfo" "saved demo_state = []"
    by (simp_all add: demo_state_def)
  have r2': "setPpkIfNotExist demo_platform demo_service demo_state demo_remoteInfo
       = (Inr (), \<lparr>localInfo = demo_localInfo\<lparr>ppk := Some demo_pair\<rparr>,
                   saved = [demo_localInfo\<lparr>ppk := Some demo_pair\<rparr>]\<rparr>)"
    using r2 by (simp only: g append_Nil)
  show ?thesis by (intro conjI a r1 b1 b2 c d1 e r2')
qed

section \<open>Re-encrypting a master key\<close>

text \<open>
  Claim C7. Each of the three re-encryption operations returns the master key it was
  given with the newly produced encrypted-content fields merged over it: every other
  field of the original is unchanged in the result. The operations return a new entity;
  none of them changes the one it was given.
\<close>

theorem reencrypt_frame:
  "(reencryptFromPasswordToPublicKey P service masterKey decryptionPassword target = Inr r1
      \<longrightarrow> replaces r1 masterKey)
   \<and> (reencryptFromPublicKeyToPassword P service masterKey source sourcePassword newPassword = Inr r2
      \<longrightarrow> replaces r2 masterKey)
   \<and> (ppkReencryptMasterKey P service masterKey source sourcePassword target = Inr r3
      \<longrightarrow> replaces r3 masterKey)"
proof (intro conjI impI)
  assume "reencryptFromPasswordToPublicKey P service masterKey decryptionPassword target = Inr r1"
  from reencryptFromPasswordToPublicKey_Inr [OF this] show "replaces r1 masterKey"
    using replacesI by blast
next
  assume "reencryptFromPublicKeyToPassword P service masterKey source sourcePassword newPassword = Inr r2"
  from reencryptFromPublicKeyToPassword_Inr [OF this] show "replaces r2 masterKey"
    using replacesI by blast
next
  assume "ppkReencryptMasterKey P service masterKey source sourcePassword target = Inr r3"
  from ppkReencryptMasterKey_Inr [OF this] show "replaces r3 masterKey"
    using replacesI by blast
qed

text \<open>
  The three operations on the concrete platform: the field \<open>id\<close> of the master key stays.
\<close>

theorem reencrypt_frame_witness:
  "reencryptFromPasswordToPublicKey demo_platform demo_service demo_masterKey ''pw1'' demo_pair
     = Inr demo_masterKey_public
   \<and> replaces demo_masterKey_public demo_masterKey
   \<and> demo_masterKey_public ''id'' = Some (FString ''mk1'')
   \<and> reencryptFromPublicKeyToPassword demo_platform demo_service demo_masterKey_public demo_pair ''abc123'' ''pw2''
     = Inr demo_masterKey_password
   \<and> replaces demo_masterKey_password demo_masterKey_public
   \<and> ppkReencryptMasterKey demo_platform demo_service demo_masterKey_public demo_pair ''abc123'' demo_pair2
     = Inr demo_masterKey_public2
   \<and> replaces demo_masterKey_public2 demo_masterKey_public"
proof -
  have r1: "replaces demo_masterKey_public demo_masterKey"
    by (rule reencrypt_frame [THEN conjunct1, THEN mp]) (rule demo_op1)
  have r2: "replaces demo_masterKey_password demo_masterKey_public"
    by (rule reencrypt_frame [THEN conjunct2, THEN conjunct1, THEN mp]) (rule demo_op2)
  have r3: "replaces demo_masterKey_public2 demo_masterKey_public"
    by (rule reencrypt_frame [THEN conjunct2, THEN conjunct2, THEN mp]) (rule demo_op3)
  from r1 obtain newContent where x:
    "demo_masterKey_public = demo_masterKey ++ newContent
      \<and> dom newContent = {''encryption_method'', ''content''}
      \<and> (\<forall>f. f \<notin> dom newContent \<longrightarrow> demo_masterKey_public f = demo_masterKey f)
      \<and> (\<forall>f. f \<in> dom newContent \<longrightarrow> demo_masterKey_public f = newContent f)"
    unfolding replaces_def ..
  note d = x [THEN conjunct2, THEN conjunct1]
  note f = x [THEN conjunct2, THEN conjunct2, THEN conjunct1]
  have n: "''id'' \<notin> dom newContent" unfolding d by simp
  from f have "''id'' \<notin> dom newContent \<longrightarrow> demo_masterKey_public ''id'' = demo_masterKey ''id''"
    by (rule spec)
  from this n have "demo_masterKey_public ''id'' = demo_masterKey ''id''"
    by (rule mp)
  then have i: "demo_masterKey_public ''id'' = Some (FString ''mk1'')"
    by (simp only: demo_content)
  show ?thesis by (intro conjI demo_op1 r1 i demo_op2 r2 demo_op3 r3)
qed

text \<open>
  Claim C5. From the password to the public key and back: a master key whose content is
  \<open>c\<close> under the password \<open>p\<close> is re-encrypted for the key pair \<open>k\<close>, and the result is
  re-encrypted from \<open>k\<close> (loaded with its password \<open>pk\<close>) to the new password \<open>q\<close>. When
  the collaborators work (the keys load, RSA decryption with the full key undoes RSA
  encryption with the public key, \<^verbatim>\<open>JSON.parse\<close> undoes \<^verbatim>\<open>JSON.stringify\<close>, the password
  scheme decrypts under \<open>q\<close> what it encrypted under \<open>q\<close>), both operations succeed and the
  content of the final master key decrypts to \<open>c\<close> under \<open>q\<close>.
\<close>

theorem reencrypt_symmetry:
  assumes initial: "decryptMasterKeyContent service masterKey p (None :: 'h EncryptOptions) = Inr c"
    and pub: "loadPublicKey P (publicKey k) = Inr publicKeys"
    and full: "loadPpk P service k pk = Inr fullKeys"
    and enc: "NodeRSA_encrypt P publicKeys c = Inr buffer"
    and dec: "NodeRSA_decrypt P fullKeys buffer = Inr c"
    and json: "JSON_parse P (JSON_stringify P (envelope (key_id k) buffer))
                 = Inr (envelope (key_id k) buffer)"
    and senc: "service_encrypt service (defaultMasterKeyEncryptionMethod service) q c = Inr c2"
    and sdec: "service_decrypt service (defaultMasterKeyEncryptionMethod service) q c2 = Inr c"
  shows "\<exists>mk1 mk2.
           reencryptFromPasswordToPublicKey (P :: 'h platform) service masterKey p k = Inr mk1
         \<and> reencryptFromPublicKeyToPassword P service mk1 k pk q = Inr mk2
         \<and> decryptMasterKeyContent service mk2 q (None :: 'h EncryptOptions) = Inr c"
proof -
  let ?e = "JSON_stringify P (envelope (key_id k) buffer)"
  let ?mk1 = "masterKey ++ [''encryption_method'' \<mapsto> FMethod Custom, ''content'' \<mapsto> FString ?e]"
  let ?m = "defaultMasterKeyEncryptionMethod service"
  let ?mk2 = "?mk1 ++ [''encryption_method'' \<mapsto> FMethod ?m, ''content'' \<mapsto> FString c2]"
  have e: "handler_encrypt (ppkEncryptionHandler P (key_id k) publicKeys) c [] = Inr ?e"
    by (simp add: handler_encrypt_unfold enc)
  have d: "handler_decrypt (ppkEncryptionHandler P (key_id k) fullKeys) ?e [] = Inr c"
    by (simp add: handler_decrypt_unfold json js_get_envelope hex_decode_encode dec)
  have 1: "reencryptFromPasswordToPublicKey P service masterKey p k = Inr ?mk1"
    by (simp add: reencryptFromPasswordToPublicKey_def pub initial encryptMasterKeyContent_def e)
  have "decryptMasterKeyContent service ?mk1 [] (Some (ppkEncryptionHandler P (key_id k) fullKeys)) = Inr c"
    by (simp add: decryptMasterKeyContent_def d)
  then have 2: "reencryptFromPublicKeyToPassword P service ?mk1 k pk q = Inr ?mk2"
    by (simp add: reencryptFromPublicKeyToPassword_def full encryptMasterKeyContent_def senc)
  have 3: "decryptMasterKeyContent service ?mk2 q (None :: 'h EncryptOptions) = Inr c"
    by (simp add: decryptMasterKeyContent_def sdec)
  from 1 2 3 show ?thesis by blast
qed

text \<open>
  The content \<open>c0ffee\<close> under \<open>pw1\<close> goes to the key pair \<open>demo_pair\<close> and back under \<open>pw2\<close>.
\<close>

theorem reencrypt_symmetry_witness:
  "decryptMasterKeyContent demo_service demo_masterKey ''pw1'' (None :: demo_key EncryptOptions) = Inr ''c0ffee''
   \<and> NodeRSA_encrypt demo_platform (DemoKey (Some ''k1'') None) ''c0ffee'' = Inr demo_buffer
   \<and> NodeRSA_decrypt demo_platform demo_full_key demo_buffer = Inr ''c0ffee''
   \<and> service_encrypt demo_service (defaultMasterKeyEncryptionMethod demo_service) ''pw2'' ''c0ffee'' = Inr ''pw2|c0ffee''
   \<and> service_decrypt demo_service (defaultMasterKeyEncryptionMethod demo_service) ''pw2'' ''pw2|c0ffee'' = Inr ''c0ffee''
   \<and> (\<exists>mk1 mk2.
           reencryptFromPasswordToPublicKey demo_platform demo_service demo_masterKey ''pw1'' demo_pair = Inr mk1
         \<and> reencryptFromPublicKeyToPassword demo_platform demo_service mk1 demo_pair ''abc123'' ''pw2'' = Inr mk2
         \<and> decryptMasterKeyContent demo_service mk2 ''pw2'' (None :: demo_key EncryptOptions) = Inr ''c0ffee'')"
proof -
  have enc: "NodeRSA_encrypt demo_platform (DemoKey (Some ''k1'') None) ''c0ffee'' = Inr demo_buffer"
    by code_simp
  have dec: "NodeRSA_decrypt demo_platform demo_full_key demo_buffer = Inr ''c0ffee''"
    by code_simp
  have json: "JSON_parse demo_platform (JSON_stringify demo_platform (envelope (key_id demo_pair) demo_buffer))
                = Inr (envelope (key_id demo_pair) demo_buffer)"
    by code_simp
  have senc: "service_encrypt demo_service (defaultMasterKeyEncryptionMethod demo_service) ''pw2'' ''c0ffee''
                = Inr ''pw2|c0ffee''"
    by code_simp
  have sdec: "service_decrypt demo_service (defaultMasterKeyEncryptionMethod demo_service) ''pw2'' ''pw2|c0ffee''
                = Inr ''c0ffee''"
    by code_simp
  have "\<exists>mk1 mk2.
           reencryptFromPasswordToPublicKey demo_platform demo_service demo_masterKey ''pw1'' demo_pair = Inr mk1
         \<and> reencryptFromPublicKeyToPassword demo_platform demo_service mk1 demo_pair ''abc123'' ''pw2'' = Inr mk2
         \<and> decryptMasterKeyContent demo_service mk2 ''pw2'' (None :: demo_key EncryptOptions) = Inr ''c0ffee''"
    by (rule reencrypt_symmetry [OF demo_initial demo_loadPublicKey demo_loadPpk enc dec json senc sdec])
  then show ?thesis by (intro conjI demo_initial enc dec senc sdec)
qed

end
